theory Spec2Isabelle
  imports Main
begin

section \<open>Values and component configurations\<close>

text \<open>
  The stream builder of \<^verbatim>\<open>public/service/stream_builder.go\<close> accumulates component
  configurations and composes them into one pipeline configuration. A component
  configuration (\<^verbatim>\<open>input.Config\<close>, \<^verbatim>\<open>output.Config\<close>, \<^verbatim>\<open>cache.Config\<close>, ...) is a struct
  of which the builder reads and writes the fields \<^verbatim>\<open>Label\<close>, \<^verbatim>\<open>Type\<close> and \<^verbatim>\<open>Plugin\<close>;
  the plugin payload has Go's type \<^verbatim>\<open>any\<close>. The zero value of the struct is
  \<open>Component [] [] ANil\<close>.
\<close>

datatype 'p component = Component (Label: string) (Type: string) (Plugin: 'p)

text \<open>A \<^verbatim>\<open>*yaml.Node\<close>: the builder and the tracer package only read its line.\<close>

datatype yaml_Node = Node (Line: int) (Content: string)

text \<open>\<^verbatim>\<open>tracer.Config\<close> of the tracer package: \<^verbatim>\<open>Type string\<close> and \<^verbatim>\<open>Plugin any\<close>.\<close>

datatype 'p tracer_Config = TracerConfig (tracer_Type: string) (tracer_Plugin: 'p)

text \<open>
  Go's \<^verbatim>\<open>any\<close>, with one constructor for each dynamic type the modelled code builds or
  switches on: the nil interface, a string, a \<^verbatim>\<open>[]any\<close>, a \<^verbatim>\<open>map[string]any\<close>, a
  \<^verbatim>\<open>*yaml.Node\<close>, an \<^verbatim>\<open>input.Config\<close>, an \<^verbatim>\<open>output.Config\<close>, a \<^verbatim>\<open>tracer.Config\<close>, and
  \<open>AOther n\<close> for a value of any other dynamic type, \<open>n\<close> being the name that the
  format verb \<^verbatim>\<open>%T\<close> prints for it.
\<close>

datatype any =
    ANil
  | AString string
  | ASlice "any list"
  | AMap "string \<Rightarrow> any option"
  | AYAMLNode yaml_Node
  | AInputConfig "any component"
  | AOutputConfig "any component"
  | ATracerConfig "any tracer_Config"
  | AOther string

text \<open>What \<^verbatim>\<open>%T\<close> prints for a value.\<close>

fun type_name :: "any \<Rightarrow> string" where
  "type_name ANil = ''<nil>''"
| "type_name (AString _) = ''string''"
| "type_name (ASlice _) = ''[]interface {}''"
| "type_name (AMap _) = ''map[string]interface {}''"
| "type_name (AYAMLNode _) = ''*yaml.Node''"
| "type_name (AInputConfig _) = ''input.Config''"
| "type_name (AOutputConfig _) = ''output.Config''"
| "type_name (ATracerConfig _) = ''tracer.Config''"
| "type_name (AOther n) = n"

section \<open>Errors\<close>

datatype lint_type = LintComponentNotFound | LintFailedRead

text \<open>
  Every error value the modelled code creates, named after its message:
  \<^item> \<open>ErrMultipleProducers\<close>: "unable to add multiple producer funcs to a stream builder";
  \<^item> \<open>ErrProducerUUID e\<close>: "failed to generate a producer uuid: %w";
  \<^item> \<open>ErrMultipleConsumers\<close>: "unable to add multiple consumer funcs to a stream builder";
  \<^item> \<open>ErrConsumerUUID e\<close>: "failed to generate a consumer uuid: %w";
  \<^item> \<open>ErrCacheLabel\<close>: "a label must be specified for cache resources";
  \<^item> \<open>ErrRateLimitLabel\<close>: "a label must be specified for rate limit resources";
  \<^item> \<open>ErrLabelCollides l\<close>: "label %v collides with a previously defined resource";
  \<^item> \<open>ErrOverrideInputs\<close>: "attempted to override inputs config after adding a func producer";
  \<^item> \<open>ErrOverrideOutputs\<close>: "attempted to override outputs config after adding a func consumer";
  \<^item> \<open>ErrUnexpectedValue t\<close>: "unexpected value, expected object, got %T";
  \<^item> \<open>ErrMissingEnvVars b\<close>: \<^verbatim>\<open>*config.ErrMissingEnvVars\<close> with its \<^verbatim>\<open>BestAttempt\<close>;
  \<^item> \<open>LintError line t e\<close>: \<^verbatim>\<open>docs.NewLintError(line, t, e)\<close>;
  \<^item> \<open>ErrExternal m\<close>: any other error returned by an external collaborator.
\<close>

datatype error =
    ErrMultipleProducers
  | ErrProducerUUID error
  | ErrMultipleConsumers
  | ErrConsumerUUID error
  | ErrCacheLabel
  | ErrRateLimitLabel
  | ErrLabelCollides string
  | ErrOverrideInputs
  | ErrOverrideOutputs
  | ErrUnexpectedValue string
  | ErrMissingEnvVars string
  | LintError int lint_type error
  | ErrExternal string

section \<open>Messages and handler functions\<close>

datatype part = Part string

text \<open>\<^verbatim>\<open>service.Message\<close> wraps a \<^verbatim>\<open>*message.Part\<close>; \<^verbatim>\<open>NewInternalMessage\<close> builds it.\<close>

datatype message = Message (part: part)

definition NewInternalMessage :: "part \<Rightarrow> message" where
  "NewInternalMessage p = Message p"

datatype "context" = Background | Context nat

text \<open>A call of a Go function value returns, or panics (as a call of a nil func does).\<close>

datatype 'a go_call = Returns 'a | Panics

text \<open>
  Handlers are closures supplied by the caller: they may read and change state of their
  own, the world \<open>'w\<close>, which a call takes and returns. A handler returns
  \<open>None\<close> (Go's nil error) on success.
\<close>

type_synonym 'w MessageHandlerFunc =
  "context \<Rightarrow> message \<Rightarrow> 'w \<Rightarrow> error option go_call \<times> 'w"

type_synonym 'w MessageBatchHandlerFunc =
  "context \<Rightarrow> message list \<Rightarrow> 'w \<Rightarrow> error option go_call \<times> 'w"

text \<open>A transaction as the consumer loop reads it: its payload. Its acknowledgement is
  what the loop passes to \<^verbatim>\<open>tran.Ack\<close>.\<close>

datatype transaction = Transaction (Payload: "part list")

type_synonym chan = nat

subsection \<open>The select statement and the producer closures' surroundings\<close>

text \<open>
  The closures returned by the two producer registrations run two \<^verbatim>\<open>select\<close> statements,
  each over two communication cases. A case can proceed (\<open>Some v\<close>, \<open>v\<close> being the
  value a receive yields) or not (\<open>None\<close>). When both cases can proceed the Go runtime
  chooses one of them: the choice is an argument. When one can proceed it is taken; when
  none ever can, the statement blocks for ever, which is the result \<open>None\<close>.
\<close>

datatype select_case = FirstCase | SecondCase

definition go_select :: "'a option \<Rightarrow> 'b option \<Rightarrow> select_case \<Rightarrow> ('a + 'b) option" where
  "go_select case1 case2 pick =
     (case (case1, case2) of
        (Some a, Some b) \<Rightarrow> Some (if pick = FirstCase then Inl a else Inr b)
      | (Some a, None) \<Rightarrow> Some (Inl a)
      | (None, Some b) \<Rightarrow> Some (Inr b)
      | (None, None) \<Rightarrow> None)"

definition ready :: "bool \<Rightarrow> unit option" where
  "ready b = (if b then Some () else None)"

text \<open>
  What a call of a producer closure meets, as seen at the moment each \<^verbatim>\<open>select\<close>
  proceeds:
  \<^item> \<open>receiver_ready\<close>: a goroutine of the pipeline receives from \<^verbatim>\<open>tChan\<close>, so the send
    can proceed;
  \<^item> \<open>done_at_send\<close>, \<open>done_at_ack\<close>: \<^verbatim>\<open>ctx.Done()\<close> is closed at the first, at the second
    \<^verbatim>\<open>select\<close> (a context cancelled before the call has both);
  \<^item> \<open>ack_ready\<close>: the pipeline has resolved the transaction and sends its result on
    \<^verbatim>\<open>resChan\<close> (\<open>Some None\<close> is the nil error: delivered);
  \<^item> \<open>pick_send\<close>, \<open>pick_ack\<close>: the runtime's choice at each \<^verbatim>\<open>select\<close> when both cases can
    proceed;
  \<^item> \<open>ctx_Err\<close>: what \<^verbatim>\<open>ctx.Err()\<close> returns once the context is done.
\<close>

record scheduling =
  receiver_ready :: bool
  done_at_send :: bool
  pick_send :: select_case
  ack_ready :: "error option option"
  done_at_ack :: bool
  pick_ack :: select_case
  ctx_Err :: error

text \<open>
  What a call of a producer closure does: the transaction it handed to the pipeline and
  the channel it sent it on (\<open>sent\<close>), whether it received the acknowledgement from
  \<^verbatim>\<open>resChan\<close> (\<open>acked\<close>), and the error it returned (\<open>returned\<close>: \<open>None\<close> when the call
  never returns, \<open>Some None\<close> for the nil error).
\<close>

record send_outcome =
  sent :: "(chan \<times> transaction) option"
  acked :: bool
  returned :: "error option option"

type_synonym producer_MessageHandlerFunc = "scheduling \<Rightarrow> message \<Rightarrow> send_outcome"

type_synonym producer_MessageBatchHandlerFunc = "scheduling \<Rightarrow> message list \<Rightarrow> send_outcome"

section \<open>Configuration structs\<close>

record api_Config =
  Enabled :: bool
  api_fields :: any

type_synonym log_Config = any

text \<open>\<^verbatim>\<open>manager.ResourceConfig\<close>: the two resource lists the builder appends to.\<close>

record ResourceConfig =
  ResourceCaches :: "any component list"
  ResourceRateLimits :: "any component list"

record pipeline_Config =
  Threads :: int
  Processors :: "any component list"

record stream_Config =
  Input :: "any component"
  Buffer :: "any component"
  Pipeline :: pipeline_Config
  Output :: "any component"

text \<open>\<^verbatim>\<open>builderConfig\<close>: the snapshot \<^verbatim>\<open>buildConfig\<close> returns. The embedded
  \<^verbatim>\<open>stream.Config\<close> and \<^verbatim>\<open>manager.ResourceConfig\<close> are fields named after their types.\<close>

record builderConfig =
  HTTP :: "api_Config option"
  Config :: stream_Config
  ResourceConfig :: ResourceConfig
  Metrics :: "any component"
  Logger :: "log_Config option"
  Tracer :: "any tracer_Config"

text \<open>\<^verbatim>\<open>config.Type\<close> of \<^verbatim>\<open>internal/config/schema.go\<close>.\<close>

record config_Type =
  Type_HTTP :: api_Config
  Type_Config :: stream_Config
  Type_ResourceConfig :: ResourceConfig
  Type_Logger :: log_Config
  Type_Metrics :: "any component"
  Type_Tracer :: "any tracer_Config"
  SystemCloseDelay :: string
  SystemCloseTimeout :: string
  Tests :: "any list"
  rawSource :: any

datatype docs_Type =
  TypeInput | TypeProcessor | TypeOutput | TypeCache | TypeRateLimit | TypeBuffer
  | TypeMetrics | TypeTracer

datatype FieldSpecs = FieldSpecs nat
datatype ParsedConfig = ParsedConfig nat
datatype Environment = Environment nat
datatype HTTPMultiplexer = HTTPMultiplexer nat
datatype log_Modular = log_Modular nat

type_synonym Lint = "int \<times> string"

section \<open>External collaborators\<close>

text \<open>
  The packages the builder calls and that are outside the modelled files (the YAML
  reader, the environment-variable substitution, the linter, the component packages'
  constructors and parsers, the parsed-config accessors) are parameters of the model:
  one record of functions, passed to every operation that calls one of them. The
  provider argument \<^verbatim>\<open>s.env.internal\<close> and the lint context are part of these functions.
  \<open>lintsToErr\<close> and \<open>convertDocsLintErr\<close> are helpers of the service package whose
  source is outside the modelled files.
\<close>

record ext =
  ReplaceEnvVariables :: "(string \<Rightarrow> string \<times> bool) \<Rightarrow> string \<Rightarrow> error + string"
  UnmarshalYAML :: "string \<Rightarrow> error + yaml_Node"
  docs_LintYAML :: "docs_Type \<Rightarrow> yaml_Node \<Rightarrow> Lint list"
  spec_LintYAML :: "FieldSpecs \<Rightarrow> yaml_Node \<Rightarrow> Lint list"
  lintsToErr :: "Lint list \<Rightarrow> error option"
  convertDocsLintErr :: "error \<Rightarrow> error"
  input_FromAny :: "yaml_Node \<Rightarrow> error + any component"
  output_FromAny :: "yaml_Node \<Rightarrow> error + any component"
  cache_FromAny :: "yaml_Node \<Rightarrow> error + any component"
  ratelimit_FromAny :: "yaml_Node \<Rightarrow> error + any component"
  metrics_FromAny :: "any \<Rightarrow> error + any component"
  input_NewConfig :: "any component"
  output_NewConfig :: "any component"
  buffer_NewConfig :: "any component"
  metrics_NewConfig :: "any component"
  api_NewConfig :: api_Config
  log_NewConfig :: log_Config
  manager_NewResourceConfig :: ResourceConfig
  config_Spec :: FieldSpecs
  SetDefault :: "FieldSpecs \<Rightarrow> bool \<Rightarrow> string list \<Rightarrow> FieldSpecs"
  globalEnvironment :: Environment
  os_LookupEnv :: "string \<Rightarrow> string \<times> bool"
  ParsedConfigFromAny :: "FieldSpecs \<Rightarrow> yaml_Node \<Rightarrow> error + ParsedConfig"
  stream_FromParsed :: "ParsedConfig \<Rightarrow> error + stream_Config"
  manager_FromParsed :: "ParsedConfig \<Rightarrow> error + ResourceConfig"
  api_FromParsed :: "ParsedConfig \<Rightarrow> error + api_Config"
  log_FromParsed :: "ParsedConfig \<Rightarrow> error + log_Config"
  Contains :: "ParsedConfig \<Rightarrow> string \<Rightarrow> bool"
  Namespace :: "ParsedConfig \<Rightarrow> string \<Rightarrow> ParsedConfig"
  FieldAny :: "ParsedConfig \<Rightarrow> string list \<Rightarrow> any \<times> error option"
  FieldString :: "ParsedConfig \<Rightarrow> string \<Rightarrow> error + string"
  FieldAnyList :: "ParsedConfig \<Rightarrow> string \<Rightarrow> error + ParsedConfig list"
  GetInferenceCandidateFromMap :: "docs_Type \<Rightarrow> (string \<Rightarrow> any option) \<Rightarrow> string \<times> error option"
  GetInferenceCandidateFromYAML :: "docs_Type \<Rightarrow> yaml_Node \<Rightarrow> string \<times> error option"
  GetPluginConfigYAML :: "string \<Rightarrow> yaml_Node \<Rightarrow> yaml_Node \<times> error option"

section \<open>The tracer config package\<close>

text \<open>
  The functions of the tracer package return a pair \<^verbatim>\<open>(conf Config, err error)\<close> through
  named results, and a caller receives both: the model returns the pair, \<open>None\<close> being
  the nil error. \<^verbatim>\<open>conf\<close> starts as the zero value \<open>TracerConfig [] ANil\<close>.
\<close>

definition tracer_NewConfig :: "any tracer_Config" where
  "tracer_NewConfig = TracerConfig ''none'' ANil"

definition tracer_fromMap :: "ext \<Rightarrow> (string \<Rightarrow> any option) \<Rightarrow> any tracer_Config \<times> error option" where
  "tracer_fromMap prov v =
     (case GetInferenceCandidateFromMap prov TypeTracer v of
        (t, Some err) \<Rightarrow> (TracerConfig t ANil, Some (LintError 0 LintComponentNotFound err))
      | (t, None) \<Rightarrow>
          (case v t of
             Some p \<Rightarrow> (TracerConfig t p, None)
           | None \<Rightarrow>
               (case v ''plugin'' of
                  Some p \<Rightarrow> (TracerConfig t p, None)
                | None \<Rightarrow> (TracerConfig t ANil, None))))"

definition tracer_fromYAML :: "ext \<Rightarrow> yaml_Node \<Rightarrow> any tracer_Config \<times> error option" where
  "tracer_fromYAML prov v =
     (case GetInferenceCandidateFromYAML prov TypeTracer v of
        (t, Some err) \<Rightarrow> (TracerConfig t ANil, Some (LintError (Line v) LintComponentNotFound err))
      | (t, None) \<Rightarrow>
          (case GetPluginConfigYAML prov t v of
             (pluginNode, Some err) \<Rightarrow> (TracerConfig t ANil, Some (LintError (Line v) LintFailedRead err))
           | (pluginNode, None) \<Rightarrow> (TracerConfig t (AYAMLNode pluginNode), None)))"

text \<open>\<^verbatim>\<open>FromAny\<close>: the type switch over the three accepted shapes; any other value falls
  through to the error, the result \<^verbatim>\<open>conf\<close> still being the zero value.\<close>

definition tracer_FromAny :: "ext \<Rightarrow> any \<Rightarrow> any tracer_Config \<times> error option" where
  "tracer_FromAny prov v =
     (case v of
        ATracerConfig t \<Rightarrow> (t, None)
      | AYAMLNode t \<Rightarrow> tracer_fromYAML prov t
      | AMap t \<Rightarrow> tracer_fromMap prov t
      | _ \<Rightarrow> (TracerConfig [] ANil, Some (ErrUnexpectedValue (type_name v))))"

text \<open>The three source shapes \<^verbatim>\<open>FromAny\<close> accepts.\<close>

fun accepted_shape :: "any \<Rightarrow> bool" where
  "accepted_shape (ATracerConfig _) = True"
| "accepted_shape (AYAMLNode _) = True"
| "accepted_shape (AMap _) = True"
| "accepted_shape _ = False"

section \<open>The stream builder\<close>

text \<open>
  \<^verbatim>\<open>StreamBuilder\<close>, field by field. \<^verbatim>\<open>producerChan\<close> is \<open>None\<close> for a nil channel and
  \<^verbatim>\<open>consumerFunc\<close> is \<open>None\<close> for a nil func value: the guards of the builder compare
  both with nil. Every method of the builder takes the builder and returns it updated,
  next to its Go results (\<open>None\<close> is the nil error).
\<close>

record 'w StreamBuilder =
  engineVersion :: string
  http :: api_Config
  threads :: int
  inputs :: "any component list"
  buffer :: "any component"
  processors :: "any component list"
  outputs :: "any component list"
  resources :: ResourceConfig
  metrics :: "any component"
  tracer :: "any tracer_Config"
  logger :: log_Config
  producerChan :: "chan option"
  producerID :: string
  consumerFunc :: "'w MessageBatchHandlerFunc option"
  consumerID :: string
  apiMut :: "HTTPMultiplexer option"
  customLogger :: "log_Modular option"
  configSpec :: FieldSpecs
  env :: Environment
  lintingDisabled :: bool
  envVarLookupFn :: "string \<Rightarrow> string \<times> bool"
  outputBrokerPattern :: string

definition NewStreamBuilder :: "ext \<Rightarrow> 'w StreamBuilder" where
  "NewStreamBuilder x =
     (let httpConf = (api_NewConfig x)\<lparr>Enabled := False\<rparr>;
          tmpSpec = SetDefault x (config_Spec x) False [''http'', ''enabled'']
      in \<lparr> engineVersion = [],
           http = httpConf,
           threads = 0,
           inputs = [],
           buffer = buffer_NewConfig x,
           processors = [],
           outputs = [],
           resources = manager_NewResourceConfig x,
           metrics = metrics_NewConfig x,
           tracer = tracer_NewConfig,
           logger = log_NewConfig x,
           producerChan = None,
           producerID = [],
           consumerFunc = None,
           consumerID = [],
           apiMut = None,
           customLogger = None,
           configSpec = tmpSpec,
           env = globalEnvironment x,
           lintingDisabled = False,
           envVarLookupFn = os_LookupEnv x,
           outputBrokerPattern = [] \<rparr>)"

definition DisableLinting :: "'w StreamBuilder \<Rightarrow> 'w StreamBuilder" where
  "DisableLinting s = s\<lparr>lintingDisabled := True\<rparr>"

definition SetThreads :: "int \<Rightarrow> 'w StreamBuilder \<Rightarrow> 'w StreamBuilder" where
  "SetThreads n s = s\<lparr>threads := n\<rparr>"

definition SetOutputBrokerPattern :: "string \<Rightarrow> 'w StreamBuilder \<Rightarrow> 'w StreamBuilder" where
  "SetOutputBrokerPattern pattern s = s\<lparr>outputBrokerPattern := pattern\<rparr>"

definition SetHTTPMux :: "HTTPMultiplexer \<Rightarrow> 'w StreamBuilder \<Rightarrow> 'w StreamBuilder" where
  "SetHTTPMux m s = s\<lparr>apiMut := Some m\<rparr>"

text \<open>Assignments to one field of a component config.\<close>

definition set_Type :: "string \<Rightarrow> 'p component \<Rightarrow> 'p component" where
  "set_Type t c = Component (Label c) t (Plugin c)"

definition set_Plugin :: "'p \<Rightarrow> 'p component \<Rightarrow> 'p component" where
  "set_Plugin p c = Component (Label c) (Type c) p"

subsection \<open>Reading and linting YAML\<close>

definition getYAMLNode :: "ext \<Rightarrow> 'w StreamBuilder \<Rightarrow> string \<Rightarrow> error + yaml_Node" where
  "getYAMLNode x s b =
     (case ReplaceEnvVariables x (envVarLookupFn s) b of
        Inr b' \<Rightarrow> UnmarshalYAML x b'
      | Inl (ErrMissingEnvVars BestAttempt) \<Rightarrow> UnmarshalYAML x BestAttempt
      | Inl err \<Rightarrow> Inl err)"

definition lintYAMLSpec :: "ext \<Rightarrow> 'w StreamBuilder \<Rightarrow> FieldSpecs \<Rightarrow> yaml_Node \<Rightarrow> error option" where
  "lintYAMLSpec x s spec node =
     (if lintingDisabled s then None else lintsToErr x (spec_LintYAML x spec node))"

definition lintYAMLComponent :: "ext \<Rightarrow> 'w StreamBuilder \<Rightarrow> yaml_Node \<Rightarrow> docs_Type \<Rightarrow> error option" where
  "lintYAMLComponent x s node ctype =
     (if lintingDisabled s then None else lintsToErr x (docs_LintYAML x ctype node))"

subsection \<open>Producer and consumer registration\<close>

text \<open>
  The result of \<^verbatim>\<open>uuid.NewV4()\<close> (the error, or the identifier as \<^verbatim>\<open>uuid.String()\<close>
  prints it) and the channel that \<^verbatim>\<open>make\<close> allocates are arguments of the model.
\<close>

text \<open>
  The closure \<^verbatim>\<open>AddProducerFunc\<close> returns, over the channel \<^verbatim>\<open>tChan\<close> it captured: it
  wraps the message's part in a batch, then sends the transaction or sees the context
  done and returns \<^verbatim>\<open>ctx.Err()\<close>; after the send, it receives the result from \<^verbatim>\<open>resChan\<close>
  and returns it, or sees the context done and returns \<^verbatim>\<open>ctx.Err()\<close>.
\<close>

definition AddProducerFunc_closure :: "chan \<Rightarrow> producer_MessageHandlerFunc" where
  "AddProducerFunc_closure tChan sc m =
     (let tmpMsg = [part m] in
      case go_select (ready (receiver_ready sc)) (ready (done_at_send sc)) (pick_send sc) of
        None \<Rightarrow> \<lparr> sent = None, acked = False, returned = None \<rparr>
      | Some (Inr _) \<Rightarrow> \<lparr> sent = None, acked = False, returned = Some (Some (ctx_Err sc)) \<rparr>
      | Some (Inl _) \<Rightarrow>
          (case go_select (ack_ready sc) (ready (done_at_ack sc)) (pick_ack sc) of
             None \<Rightarrow>
               \<lparr> sent = Some (tChan, Transaction tmpMsg), acked = False, returned = None \<rparr>
           | Some (Inl res) \<Rightarrow>
               \<lparr> sent = Some (tChan, Transaction tmpMsg), acked = True, returned = Some res \<rparr>
           | Some (Inr _) \<Rightarrow>
               \<lparr> sent = Some (tChan, Transaction tmpMsg), acked = False,
                 returned = Some (Some (ctx_Err sc)) \<rparr>))"

definition AddProducerFunc ::
  "ext \<Rightarrow> error + string \<Rightarrow> chan \<Rightarrow> 'w StreamBuilder
     \<Rightarrow> (error + producer_MessageHandlerFunc) \<times> 'w StreamBuilder" where
  "AddProducerFunc x uuid_NewV4 tChan s =
     (if producerChan s \<noteq> None then (Inl ErrMultipleProducers, s)
      else case uuid_NewV4 of
        Inl err \<Rightarrow> (Inl (ErrProducerUUID err), s)
      | Inr uuid \<Rightarrow>
          (let s1 = s\<lparr>producerChan := Some tChan, producerID := uuid\<rparr>;
               conf = set_Plugin (AString (producerID s1)) (set_Type ''inproc'' (input_NewConfig x))
           in (Inr (AddProducerFunc_closure tChan), s1\<lparr>inputs := inputs s1 @ [conf]\<rparr>)))"

text \<open>The closure \<^verbatim>\<open>AddBatchProducerFunc\<close> returns: the same two \<^verbatim>\<open>select\<close> statements,
  on the batch of the parts of all the messages.\<close>

definition AddBatchProducerFunc_closure :: "chan \<Rightarrow> producer_MessageBatchHandlerFunc" where
  "AddBatchProducerFunc_closure tChan sc b =
     (let tmpMsg = map part b in
      case go_select (ready (receiver_ready sc)) (ready (done_at_send sc)) (pick_send sc) of
        None \<Rightarrow> \<lparr> sent = None, acked = False, returned = None \<rparr>
      | Some (Inr _) \<Rightarrow> \<lparr> sent = None, acked = False, returned = Some (Some (ctx_Err sc)) \<rparr>
      | Some (Inl _) \<Rightarrow>
          (case go_select (ack_ready sc) (ready (done_at_ack sc)) (pick_ack sc) of
             None \<Rightarrow>
               \<lparr> sent = Some (tChan, Transaction tmpMsg), acked = False, returned = None \<rparr>
           | Some (Inl res) \<Rightarrow>
               \<lparr> sent = Some (tChan, Transaction tmpMsg), acked = True, returned = Some res \<rparr>
           | Some (Inr _) \<Rightarrow>
               \<lparr> sent = Some (tChan, Transaction tmpMsg), acked = False,
                 returned = Some (Some (ctx_Err sc)) \<rparr>))"

definition AddBatchProducerFunc ::
  "ext \<Rightarrow> error + string \<Rightarrow> chan \<Rightarrow> 'w StreamBuilder
     \<Rightarrow> (error + producer_MessageBatchHandlerFunc) \<times> 'w StreamBuilder" where
  "AddBatchProducerFunc x uuid_NewV4 tChan s =
     (if producerChan s \<noteq> None then (Inl ErrMultipleProducers, s)
      else case uuid_NewV4 of
        Inl err \<Rightarrow> (Inl (ErrProducerUUID err), s)
      | Inr uuid \<Rightarrow>
          (let s1 = s\<lparr>producerChan := Some tChan, producerID := uuid\<rparr>;
               conf = set_Plugin (AString (producerID s1)) (set_Type ''inproc'' (input_NewConfig x))
           in (Inr (AddBatchProducerFunc_closure tChan), s1\<lparr>inputs := inputs s1 @ [conf]\<rparr>)))"

text \<open>
  The closure \<^verbatim>\<open>AddConsumerFunc\<close> stores: it ranges over the batch, calls \<^verbatim>\<open>fn\<close> on each
  message and returns the first non-nil error. \<^verbatim>\<open>fn\<close> is \<open>None\<close> when the caller passed
  a nil func, whose call panics.
\<close>

fun AddConsumerFunc_closure :: "'w MessageHandlerFunc option \<Rightarrow> 'w MessageBatchHandlerFunc" where
  "AddConsumerFunc_closure fn c [] w = (Returns None, w)"
| "AddConsumerFunc_closure None c (m # mb) w = (Panics, w)"
| "AddConsumerFunc_closure (Some f) c (m # mb) w =
     (case f c m w of
        (Returns None, w') \<Rightarrow> AddConsumerFunc_closure (Some f) c mb w'
      | (r, w') \<Rightarrow> (r, w'))"

definition AddConsumerFunc ::
  "ext \<Rightarrow> error + string \<Rightarrow> 'w MessageHandlerFunc option \<Rightarrow> 'w StreamBuilder \<Rightarrow> error option \<times> 'w StreamBuilder" where
  "AddConsumerFunc x uuid_NewV4 fn s =
     (if consumerFunc s \<noteq> None then (Some ErrMultipleConsumers, s)
      else case uuid_NewV4 of
        Inl err \<Rightarrow> (Some (ErrConsumerUUID err), s)
      | Inr uuid \<Rightarrow>
          (let s1 = s\<lparr>consumerFunc := Some (AddConsumerFunc_closure fn), consumerID := uuid\<rparr>;
               conf = set_Plugin (AString (consumerID s1)) (set_Type ''inproc'' (output_NewConfig x))
           in (None, s1\<lparr>outputs := outputs s1 @ [conf]\<rparr>)))"

text \<open>\<^verbatim>\<open>AddBatchConsumerFunc\<close> stores \<^verbatim>\<open>fn\<close> itself, nil or not.\<close>

definition AddBatchConsumerFunc ::
  "ext \<Rightarrow> error + string \<Rightarrow> 'w MessageBatchHandlerFunc option \<Rightarrow> 'w StreamBuilder \<Rightarrow> error option \<times> 'w StreamBuilder" where
  "AddBatchConsumerFunc x uuid_NewV4 fn s =
     (if consumerFunc s \<noteq> None then (Some ErrMultipleConsumers, s)
      else case uuid_NewV4 of
        Inl err \<Rightarrow> (Some (ErrConsumerUUID err), s)
      | Inr uuid \<Rightarrow>
          (let s1 = s\<lparr>consumerFunc := fn, consumerID := uuid\<rparr>;
               conf = set_Plugin (AString (consumerID s1)) (set_Type ''inproc'' (output_NewConfig x))
           in (None, s1\<lparr>outputs := outputs s1 @ [conf]\<rparr>)))"

subsection \<open>Adding components and resources\<close>

definition AddInputYAML :: "ext \<Rightarrow> string \<Rightarrow> 'w StreamBuilder \<Rightarrow> error option \<times> 'w StreamBuilder" where
  "AddInputYAML x conf s =
     (case getYAMLNode x s conf of
        Inl err \<Rightarrow> (Some err, s)
      | Inr nconf \<Rightarrow>
          (case lintYAMLComponent x s nconf TypeInput of
             Some err \<Rightarrow> (Some err, s)
           | None \<Rightarrow>
               (case input_FromAny x nconf of
                  Inl err \<Rightarrow> (Some (convertDocsLintErr x err), s)
                | Inr iconf \<Rightarrow> (None, s\<lparr>inputs := inputs s @ [iconf]\<rparr>))))"

definition AddOutputYAML :: "ext \<Rightarrow> string \<Rightarrow> 'w StreamBuilder \<Rightarrow> error option \<times> 'w StreamBuilder" where
  "AddOutputYAML x conf s =
     (case getYAMLNode x s conf of
        Inl err \<Rightarrow> (Some err, s)
      | Inr nconf \<Rightarrow>
          (case lintYAMLComponent x s nconf TypeOutput of
             Some err \<Rightarrow> (Some err, s)
           | None \<Rightarrow>
               (case output_FromAny x nconf of
                  Inl err \<Rightarrow> (Some (convertDocsLintErr x err), s)
                | Inr oconf \<Rightarrow> (None, s\<lparr>outputs := outputs s @ [oconf]\<rparr>))))"

text \<open>The loop over the resources of the kind returns at the first one that carries the
  new label, with that resource's label in the message.\<close>

definition AddCacheYAML :: "ext \<Rightarrow> string \<Rightarrow> 'w StreamBuilder \<Rightarrow> error option \<times> 'w StreamBuilder" where
  "AddCacheYAML x conf s =
     (case getYAMLNode x s conf of
        Inl err \<Rightarrow> (Some err, s)
      | Inr nconf \<Rightarrow>
          (case lintYAMLComponent x s nconf TypeCache of
             Some err \<Rightarrow> (Some err, s)
           | None \<Rightarrow>
               (case cache_FromAny x nconf of
                  Inl err \<Rightarrow> (Some (convertDocsLintErr x err), s)
                | Inr cconf \<Rightarrow>
                    if Label cconf = [] then (Some ErrCacheLabel, s)
                    else (case find (\<lambda>cc. Label cc = Label cconf) (ResourceCaches (resources s)) of
                            Some cc \<Rightarrow> (Some (ErrLabelCollides (Label cc)), s)
                          | None \<Rightarrow>
                              (None, s\<lparr>resources := (resources s)
                                 \<lparr>ResourceCaches := ResourceCaches (resources s) @ [cconf]\<rparr>\<rparr>)))))"

definition AddRateLimitYAML :: "ext \<Rightarrow> string \<Rightarrow> 'w StreamBuilder \<Rightarrow> error option \<times> 'w StreamBuilder" where
  "AddRateLimitYAML x conf s =
     (case getYAMLNode x s conf of
        Inl err \<Rightarrow> (Some err, s)
      | Inr nconf \<Rightarrow>
          (case lintYAMLComponent x s nconf TypeRateLimit of
             Some err \<Rightarrow> (Some err, s)
           | None \<Rightarrow>
               (case ratelimit_FromAny x nconf of
                  Inl err \<Rightarrow> (Some (convertDocsLintErr x err), s)
                | Inr rconf \<Rightarrow>
                    if Label rconf = [] then (Some ErrRateLimitLabel, s)
                    else (case find (\<lambda>rl. Label rl = Label rconf) (ResourceRateLimits (resources s)) of
                            Some rl \<Rightarrow> (Some (ErrLabelCollides (Label rl)), s)
                          | None \<Rightarrow>
                              (None, s\<lparr>resources := (resources s)
                                 \<lparr>ResourceRateLimits := ResourceRateLimits (resources s) @ [rconf]\<rparr>\<rparr>)))))"

subsection \<open>Replacing the whole configuration\<close>

text \<open>
  \<^verbatim>\<open>config.FromParsed\<close> and \<^verbatim>\<open>noStreamFromParsed\<close> of \<^verbatim>\<open>internal/config/schema.go\<close>. Their
  callers in the builder drop the config when the error is not nil, so the model returns
  the error or the config. \<^verbatim>\<open>conf\<close> starts as the zero value of \<^verbatim>\<open>config.Type\<close>.
\<close>

definition zero_component :: "any component" where
  "zero_component = Component [] [] ANil"

definition zero_stream_Config :: stream_Config where
  "zero_stream_Config =
     \<lparr> Input = zero_component, Buffer = zero_component,
       Pipeline = \<lparr> Threads = 0, Processors = [] \<rparr>, Output = zero_component \<rparr>"

definition zero_ResourceConfig :: ResourceConfig where
  "zero_ResourceConfig = \<lparr> ResourceCaches = [], ResourceRateLimits = [] \<rparr>"

definition zero_Type :: config_Type where
  "zero_Type =
     \<lparr> Type_HTTP = \<lparr> Enabled = False, api_fields = ANil \<rparr>,
       Type_Config = zero_stream_Config,
       Type_ResourceConfig = zero_ResourceConfig,
       Type_Logger = ANil,
       Type_Metrics = zero_component,
       Type_Tracer = TracerConfig [] ANil,
       SystemCloseDelay = [],
       SystemCloseTimeout = [],
       Tests = [],
       rawSource = ANil \<rparr>"

definition noStreamFromParsed :: "ext \<Rightarrow> ParsedConfig \<Rightarrow> config_Type \<Rightarrow> error + config_Type" where
  "noStreamFromParsed prov pConf conf =
     (case (if Contains prov pConf ''http'' then api_FromParsed prov (Namespace prov pConf ''http'')
            else Inr (api_NewConfig prov)) of
        Inl err \<Rightarrow> Inl err
      | Inr h \<Rightarrow>
     (case (if Contains prov pConf ''logger'' then log_FromParsed prov (Namespace prov pConf ''logger'')
            else Inr (log_NewConfig prov)) of
        Inl err \<Rightarrow> Inl err
      | Inr l \<Rightarrow>
     (case (let ga = fst (FieldAny prov pConf [''metrics''])
            in if ga \<noteq> ANil then metrics_FromAny prov ga else Inr (metrics_NewConfig prov)) of
        Inl err \<Rightarrow> Inl err
      | Inr m \<Rightarrow>
     (case (let ga = fst (FieldAny prov pConf [''tracer''])
            in if ga \<noteq> ANil then tracer_FromAny prov ga else (tracer_NewConfig, None)) of
        (_, Some err) \<Rightarrow> Inl err
      | (t, None) \<Rightarrow>
     (case (if Contains prov pConf ''shutdown_delay'' then FieldString prov pConf ''shutdown_delay''
            else Inr (SystemCloseDelay conf)) of
        Inl err \<Rightarrow> Inl err
      | Inr d \<Rightarrow>
     (case (if Contains prov pConf ''shutdown_timeout'' then FieldString prov pConf ''shutdown_timeout''
            else Inr (SystemCloseTimeout conf)) of
        Inl err \<Rightarrow> Inl err
      | Inr tm \<Rightarrow>
     (case (if Contains prov pConf ''tests'' then FieldAnyList prov pConf ''tests'' else Inr []) of
        Inl err \<Rightarrow> Inl err
      | Inr tmpTests \<Rightarrow>
          Inr (conf\<lparr> Type_HTTP := h, Type_Logger := l, Type_Metrics := m, Type_Tracer := t,
                     SystemCloseDelay := d, SystemCloseTimeout := tm,
                     Tests := Tests conf @ map (\<lambda>v. fst (FieldAny prov v [])) tmpTests \<rparr>))))))))"

definition config_FromParsed :: "ext \<Rightarrow> ParsedConfig \<Rightarrow> any \<Rightarrow> error + config_Type" where
  "config_FromParsed prov pConf src =
     (case stream_FromParsed prov pConf of
        Inl err \<Rightarrow> Inl err
      | Inr c \<Rightarrow>
          (case manager_FromParsed prov pConf of
             Inl err \<Rightarrow> Inl err
           | Inr r \<Rightarrow>
               noStreamFromParsed prov pConf
                 (zero_Type\<lparr> rawSource := src, Type_Config := c, Type_ResourceConfig := r \<rparr>)))"

definition setFromConfig :: "config_Type \<Rightarrow> 'w StreamBuilder \<Rightarrow> 'w StreamBuilder" where
  "setFromConfig sconf s =
     s\<lparr> http := Type_HTTP sconf,
        inputs := [Input (Type_Config sconf)],
        buffer := Buffer (Type_Config sconf),
        processors := Processors (Pipeline (Type_Config sconf)),
        threads := Threads (Pipeline (Type_Config sconf)),
        outputs := [Output (Type_Config sconf)],
        resources := Type_ResourceConfig sconf,
        logger := Type_Logger sconf,
        metrics := Type_Metrics sconf,
        tracer := Type_Tracer sconf \<rparr>"

definition SetYAML :: "ext \<Rightarrow> string \<Rightarrow> 'w StreamBuilder \<Rightarrow> error option \<times> 'w StreamBuilder" where
  "SetYAML x conf s =
     (if producerChan s \<noteq> None then (Some ErrOverrideInputs, s)
      else if consumerFunc s \<noteq> None then (Some ErrOverrideOutputs, s)
      else case getYAMLNode x s conf of
        Inl err \<Rightarrow> (Some err, s)
      | Inr node \<Rightarrow>
          (let spec = configSpec s in
           case lintYAMLSpec x s spec node of
             Some err \<Rightarrow> (Some err, s)
           | None \<Rightarrow>
               (case ParsedConfigFromAny x spec node of
                  Inl err \<Rightarrow> (Some (convertDocsLintErr x err), s)
                | Inr pConf \<Rightarrow>
                    (case config_FromParsed x pConf ANil of
                       Inl err \<Rightarrow> (Some (convertDocsLintErr x err), s)
                     | Inr sconf \<Rightarrow> (None, setFromConfig sconf s)))))"

subsection \<open>The snapshot\<close>

text \<open>
  \<^verbatim>\<open>buildConfig\<close> starts from the zero \<^verbatim>\<open>builderConfig\<close> and assigns its fields in the
  order of the source. With more than one input (output) the zero-valued \<^verbatim>\<open>conf.Input\<close>
  (\<^verbatim>\<open>conf.Output\<close>) gets the type \<^verbatim>\<open>broker\<close> and a \<^verbatim>\<open>map[string]any\<close> as plugin, holding
  the configs as a \<^verbatim>\<open>[]any\<close>; the output map gets the key \<^verbatim>\<open>pattern\<close> only when
  \<^verbatim>\<open>outputBrokerPattern\<close> is not the empty string.
\<close>

definition zero_builderConfig :: builderConfig where
  "zero_builderConfig =
     \<lparr> HTTP = None, Config = zero_stream_Config, ResourceConfig = zero_ResourceConfig,
       Metrics = zero_component, Logger = None, Tracer = TracerConfig [] ANil \<rparr>"

definition buildConfig :: "ext \<Rightarrow> 'w StreamBuilder \<Rightarrow> builderConfig" where
  "buildConfig x s =
     (let conf = zero_builderConfig;
          conf = (if apiMut s = None then conf\<lparr>HTTP := Some (http s)\<rparr> else conf);
          conf =
            (if length (inputs s) = 1 then conf\<lparr>Config := (Config conf)\<lparr>Input := inputs s ! 0\<rparr>\<rparr>
             else if length (inputs s) > 1 then
               (let iSlice = map AInputConfig (inputs s)
                in conf\<lparr>Config := (Config conf)\<lparr>Input :=
                     set_Plugin (AMap [''inputs'' \<mapsto> ASlice iSlice])
                       (set_Type ''broker'' (Input (Config conf)))\<rparr>\<rparr>)
             else conf\<lparr>Config := (Config conf)\<lparr>Input := input_NewConfig x\<rparr>\<rparr>);
          conf = conf\<lparr>Config := (Config conf)\<lparr>Buffer := buffer s\<rparr>\<rparr>;
          conf = conf\<lparr>Config := (Config conf)\<lparr>Pipeline :=
                   \<lparr> Threads = threads s, Processors = processors s \<rparr>\<rparr>\<rparr>;
          conf =
            (if length (outputs s) = 1 then conf\<lparr>Config := (Config conf)\<lparr>Output := outputs s ! 0\<rparr>\<rparr>
             else if length (outputs s) > 1 then
               (let iSlice = map AOutputConfig (outputs s);
                    broker = [''outputs'' \<mapsto> ASlice iSlice];
                    broker = (if outputBrokerPattern s \<noteq> []
                              then broker(''pattern'' \<mapsto> AString (outputBrokerPattern s))
                              else broker)
                in conf\<lparr>Config := (Config conf)\<lparr>Output :=
                     set_Plugin (AMap broker) (set_Type ''broker'' (Output (Config conf)))\<rparr>\<rparr>)
             else conf\<lparr>Config := (Config conf)\<lparr>Output := output_NewConfig x\<rparr>\<rparr>);
          conf = conf\<lparr>ResourceConfig := resources s\<rparr>;
          conf = conf\<lparr>Metrics := metrics s\<rparr>;
          conf = conf\<lparr>Tracer := tracer s\<rparr>;
          conf = (if customLogger s = None then conf\<lparr>Logger := Some (logger s)\<rparr> else conf)
      in conf)"

subsection \<open>Running the consumer\<close>

text \<open>
  The goroutine of \<^verbatim>\<open>runConsumerFunc\<close> receives transactions until the channel is closed;
  the model runs it over the transactions the channel delivers, in order. For each it
  rebuilds the batch from the payload, calls \<^verbatim>\<open>consumerFunc\<close> and passes the returned
  error to \<^verbatim>\<open>tran.Ack\<close>: the result lists these acknowledgements, and says whether the
  loop returned or a call panicked.
\<close>

fun consumer_loop ::
  "'w MessageBatchHandlerFunc \<Rightarrow> transaction list \<Rightarrow> 'w \<Rightarrow> (error option list \<times> unit go_call) \<times> 'w" where
  "consumer_loop cf [] w = (([], Returns ()), w)"
| "consumer_loop cf (tran # rest) w =
     (let batch = map NewInternalMessage (Payload tran) in
      case cf Background batch w of
        (Panics, w') \<Rightarrow> (([], Panics), w')
      | (Returns err, w') \<Rightarrow>
          (case consumer_loop cf rest w' of
             ((acks, r), w'') \<Rightarrow> ((err # acks, r), w'')))"

text \<open>\<^verbatim>\<open>mgr.GetPipe\<close> is an argument: for an identifier, the error or the transactions the
  pipe delivers.\<close>

definition runConsumerFunc ::
  "(string \<Rightarrow> error + transaction list) \<Rightarrow> 'w StreamBuilder \<Rightarrow> 'w
     \<Rightarrow> error option \<times> (error option list \<times> unit go_call) \<times> 'w" where
  "runConsumerFunc GetPipe s w =
     (case consumerFunc s of
        None \<Rightarrow> (None, ([], Returns ()), w)
      | Some cf \<Rightarrow>
          (case GetPipe (consumerID s) of
             Inl err \<Rightarrow> (Some err, ([], Returns ()), w)
           | Inr tChan \<Rightarrow> (None, consumer_loop cf tChan w)))"

section \<open>Notions used by the properties\<close>

text \<open>A handler that also records, in a log next to its world, each message it is
  invoked on.\<close>

definition recording :: "'w MessageHandlerFunc \<Rightarrow> ('w \<times> message list) MessageHandlerFunc" where
  "recording f c m wl =
     (case f c m (fst wl) of (r, w') \<Rightarrow> (r, (w', snd wl @ [m])))"

text \<open>\<open>succeeds_on f c ms w w'\<close>: called on the messages \<open>ms\<close> in order, from the world
  \<open>w\<close>, the handler returns success on every one of them and leaves the world \<open>w'\<close>.\<close>

fun succeeds_on :: "'w MessageHandlerFunc \<Rightarrow> context \<Rightarrow> message list \<Rightarrow> 'w \<Rightarrow> 'w \<Rightarrow> bool" where
  "succeeds_on f c [] w w' = (w' = w)"
| "succeeds_on f c (m # ms) w w' =
     (case f c m w of
        (Returns None, w1) \<Rightarrow> succeeds_on f c ms w1 w'
      | _ \<Rightarrow> False)"

text \<open>A sequence of cache-add and rate-limit-add calls, run on a builder: a failed call
  leaves the builder as it was, and the next call goes on from there.\<close>

datatype resource_call = CallAddCache string | CallAddRateLimit string

fun run_calls :: "ext \<Rightarrow> resource_call list \<Rightarrow> 'w StreamBuilder \<Rightarrow> 'w StreamBuilder" where
  "run_calls x [] s = s"
| "run_calls x (CallAddCache conf # cs) s = run_calls x cs (snd (AddCacheYAML x conf s))"
| "run_calls x (CallAddRateLimit conf # cs) s = run_calls x cs (snd (AddRateLimitYAML x conf s))"

text \<open>The invariant of a resource list: no resource has the empty label, and no two
  resources share a label.\<close>

definition labels_ok :: "any component list \<Rightarrow> bool" where
  "labels_ok rs = ([] \<notin> set (map Label rs) \<and> distinct (map Label rs))"

text \<open>The entry \<^verbatim>\<open>pattern\<close> of the plugin map of the snapshot's output, if the plugin is a
  map that has one.\<close>

definition output_pattern :: "builderConfig \<Rightarrow> any option" where
  "output_pattern conf =
     (case Plugin (Output (Config conf)) of AMap broker \<Rightarrow> broker ''pattern'' | _ \<Rightarrow> None)"

section \<open>Concrete collaborators for the examples\<close>

text \<open>
  A small set of collaborators on which the operations can be run: no variable is
  substituted, a document parses to a node holding its text, nothing is linted, and a
  component parsed from a node has the node's text as its label and as its type.
\<close>

definition example_component :: "yaml_Node \<Rightarrow> error + any component" where
  "example_component n = Inr (Component (Content n) (Content n) ANil)"

definition example_ext :: ext where
  "example_ext =
     \<lparr> ReplaceEnvVariables = (\<lambda>lookup b. Inr b),
       UnmarshalYAML = (\<lambda>b. Inr (Node 1 b)),
       docs_LintYAML = (\<lambda>ctype n. []),
       spec_LintYAML = (\<lambda>spec n. []),
       lintsToErr = (\<lambda>ls. if ls = [] then None else Some (ErrExternal ''lint'')),
       convertDocsLintErr = (\<lambda>err. err),
       input_FromAny = example_component,
       output_FromAny = example_component,
       cache_FromAny = example_component,
       ratelimit_FromAny = example_component,
       metrics_FromAny = (\<lambda>v. Inr (Component [] ''none'' ANil)),
       input_NewConfig = Component [] ''stdin'' ANil,
       output_NewConfig = Component [] ''stdout'' ANil,
       buffer_NewConfig = Component [] ''none'' ANil,
       metrics_NewConfig = Component [] ''none'' ANil,
       api_NewConfig = \<lparr> Enabled = True, api_fields = ANil \<rparr>,
       log_NewConfig = ANil,
       manager_NewResourceConfig = \<lparr> ResourceCaches = [], ResourceRateLimits = [] \<rparr>,
       config_Spec = FieldSpecs 0,
       SetDefault = (\<lambda>spec v path. spec),
       globalEnvironment = Environment 0,
       os_LookupEnv = (\<lambda>key. ([], False)),
       ParsedConfigFromAny = (\<lambda>spec n. Inr (ParsedConfig 0)),
       stream_FromParsed = (\<lambda>p. Inr \<lparr> Input = Component [] ''stdin'' ANil,
                                      Buffer = Component [] ''none'' ANil,
                                      Pipeline = \<lparr> Threads = 0, Processors = [] \<rparr>,
                                      Output = Component [] ''stdout'' ANil \<rparr>),
       manager_FromParsed = (\<lambda>p. Inr \<lparr> ResourceCaches = [], ResourceRateLimits = [] \<rparr>),
       api_FromParsed = (\<lambda>p. Inr \<lparr> Enabled = False, api_fields = ANil \<rparr>),
       log_FromParsed = (\<lambda>p. Inr ANil),
       Contains = (\<lambda>p name. False),
       Namespace = (\<lambda>p name. p),
       FieldAny = (\<lambda>p path. (ANil, None)),
       FieldString = (\<lambda>p name. Inr []),
       FieldAnyList = (\<lambda>p name. Inr []),
       GetInferenceCandidateFromMap = (\<lambda>t m. (''none'', None)),
       GetInferenceCandidateFromYAML = (\<lambda>t n. (''none'', None)),
       GetPluginConfigYAML = (\<lambda>t n. (n, None)) \<rparr>"

text \<open>A per-message handler that rejects the message \<open>bad\<close> and accepts every other
  one; its world counts its calls.\<close>

definition reject :: "message \<Rightarrow> nat MessageHandlerFunc" where
  "reject bad c m n =
     (if m = bad then (Returns (Some (ErrExternal ''rejected'')), Suc n)
      else (Returns None, Suc n))"

text \<open>
  \<open>cancelled_call sc out\<close>: what holds of the outcome \<open>out\<close> of a producer call made
  under \<open>sc\<close> on a context that is already cancelled: the call returns; the transaction
  is handed over exactly when a receiver waits and the send is chosen; without a waiting
  receiver the call returns the cancellation error and nothing is handed over; the call
  returns the cancellation error unless it received the result, and it receives the
  result, and returns it, only when the transaction was handed over, the result is ready
  and its receive is chosen.
\<close>

definition cancelled_call :: "scheduling \<Rightarrow> send_outcome \<Rightarrow> bool" where
  "cancelled_call sc out =
     (returned out \<noteq> None
      \<and> ((sent out \<noteq> None) = (receiver_ready sc \<and> pick_send sc = FirstCase))
      \<and> (receiver_ready sc \<or> (returned out = Some (Some (ctx_Err sc)) \<and> sent out = None))
      \<and> (acked out \<or> returned out = Some (Some (ctx_Err sc)))
      \<and> (acked out =
           (sent out \<noteq> None \<and> ack_ready sc \<noteq> None \<and> pick_ack sc = FirstCase))
      \<and> (\<not> acked out \<or> returned out = ack_ready sc))"

text \<open>Three calls on a context cancelled before the call: one where nothing of the
  pipeline is waiting; one where a receiver waits and the runtime chooses the send; one
  where, moreover, the pipeline has resolved the transaction as delivered and the runtime
  chooses the receive of that result.\<close>

definition cancelled_idle :: scheduling where
  "cancelled_idle =
     \<lparr> receiver_ready = False, done_at_send = True, pick_send = FirstCase,
       ack_ready = None, done_at_ack = True, pick_ack = FirstCase,
       ctx_Err = ErrExternal ''context canceled'' \<rparr>"

definition cancelled_handed_over :: scheduling where
  "cancelled_handed_over =
     \<lparr> receiver_ready = True, done_at_send = True, pick_send = FirstCase,
       ack_ready = None, done_at_ack = True, pick_ack = FirstCase,
       ctx_Err = ErrExternal ''context canceled'' \<rparr>"

definition cancelled_delivered :: scheduling where
  "cancelled_delivered =
     \<lparr> receiver_ready = True, done_at_send = True, pick_send = FirstCase,
       ack_ready = Some None, done_at_ack = True, pick_ack = FirstCase,
       ctx_Err = ErrExternal ''context canceled'' \<rparr>"

section \<open>Evaluation lemmas\<close>

lemma NewStreamBuilder_fields:
  "inputs (NewStreamBuilder x) = []" "outputs (NewStreamBuilder x) = []"
  "producerChan (NewStreamBuilder x) = None" "consumerFunc (NewStreamBuilder x) = None"
  "outputBrokerPattern (NewStreamBuilder x) = []"
  "resources (NewStreamBuilder x) = manager_NewResourceConfig x"
  by (simp_all add: NewStreamBuilder_def Let_def)

lemma example_getYAMLNode: "getYAMLNode example_ext s b = Inr (Node 1 b)"
  by (simp add: getYAMLNode_def example_ext_def)

lemma example_lintYAMLComponent: "lintYAMLComponent example_ext s n t = None"
  by (simp add: lintYAMLComponent_def example_ext_def)

lemma example_AddInputYAML:
  "AddInputYAML example_ext b s = (None, s\<lparr>inputs := inputs s @ [Component b b ANil]\<rparr>)"
  by (simp add: AddInputYAML_def example_getYAMLNode example_lintYAMLComponent)
     (simp add: example_ext_def example_component_def)

lemma example_AddOutputYAML:
  "AddOutputYAML example_ext b s = (None, s\<lparr>outputs := outputs s @ [Component b b ANil]\<rparr>)"
  by (simp add: AddOutputYAML_def example_getYAMLNode example_lintYAMLComponent)
     (simp add: example_ext_def example_component_def)

lemma example_cache_FromAny: "cache_FromAny example_ext (Node 1 b) = Inr (Component b b ANil)"
  by (simp add: example_ext_def example_component_def)

lemma example_ratelimit_FromAny: "ratelimit_FromAny example_ext (Node 1 b) = Inr (Component b b ANil)"
  by (simp add: example_ext_def example_component_def)

lemma example_NewResourceConfig:
  "manager_NewResourceConfig example_ext = \<lparr> ResourceCaches = [], ResourceRateLimits = [] \<rparr>"
  by (simp add: example_ext_def)

lemma example_AddProducerFunc:
  "producerChan s = None \<Longrightarrow>
     AddProducerFunc example_ext (Inr u) ch s =
       (Inr (AddProducerFunc_closure ch),
        s\<lparr>producerChan := Some ch, producerID := u,
          inputs := inputs s @ [Component [] ''inproc'' (AString u)]\<rparr>)"
  by (simp add: AddProducerFunc_def Let_def set_Plugin_def set_Type_def example_ext_def)

lemma example_AddConsumerFunc:
  "consumerFunc s = None \<Longrightarrow>
     AddConsumerFunc example_ext (Inr u) fn s =
       (None, s\<lparr>consumerFunc := Some (AddConsumerFunc_closure fn), consumerID := u,
                outputs := outputs s @ [Component [] ''inproc'' (AString u)]\<rparr>)"
  by (simp add: AddConsumerFunc_def Let_def set_Plugin_def set_Type_def example_ext_def)

lemma example_AddBatchConsumerFunc:
  "consumerFunc s = None \<Longrightarrow>
     AddBatchConsumerFunc example_ext (Inr u) fn s =
       (None, s\<lparr>consumerFunc := fn, consumerID := u,
                outputs := outputs s @ [Component [] ''inproc'' (AString u)]\<rparr>)"
  by (simp add: AddBatchConsumerFunc_def Let_def set_Plugin_def set_Type_def example_ext_def)

lemma example_config_FromParsed:
  "config_FromParsed example_ext p ANil =
     Inr \<lparr> Type_HTTP = \<lparr> Enabled = True, api_fields = ANil \<rparr>,
           Type_Config = \<lparr> Input = Component [] ''stdin'' ANil,
                           Buffer = Component [] ''none'' ANil,
                           Pipeline = \<lparr> Threads = 0, Processors = [] \<rparr>,
                           Output = Component [] ''stdout'' ANil \<rparr>,
           Type_ResourceConfig = \<lparr> ResourceCaches = [], ResourceRateLimits = [] \<rparr>,
           Type_Logger = ANil,
           Type_Metrics = Component [] ''none'' ANil,
           Type_Tracer = TracerConfig ''none'' ANil,
           SystemCloseDelay = [],
           SystemCloseTimeout = [],
           Tests = [],
           rawSource = ANil \<rparr>"
  by (simp add: config_FromParsed_def noStreamFromParsed_def zero_Type_def tracer_NewConfig_def
        Let_def example_ext_def)

lemma example_lintYAMLSpec: "lintYAMLSpec example_ext s spec n = None"
  by (simp add: lintYAMLSpec_def example_ext_def)

lemma example_ParsedConfigFromAny: "ParsedConfigFromAny example_ext spec n = Inr (ParsedConfig 0)"
  by (simp add: example_ext_def)

lemma example_SetYAML_outputs:
  "producerChan s = None \<Longrightarrow> consumerFunc s = None \<Longrightarrow>
     fst (SetYAML example_ext conf s) = None
     \<and> outputs (snd (SetYAML example_ext conf s)) = [Component [] ''stdout'' ANil]"
  by (simp add: SetYAML_def example_getYAMLNode example_lintYAMLSpec example_ParsedConfigFromAny
        example_config_FromParsed setFromConfig_def Let_def)

section \<open>Composition of inputs and outputs\<close>

text \<open>The operations that add an input put it after the inputs the builder holds.\<close>

lemma AddInputYAML_appends:
  "AddInputYAML x conf s = (None, s') \<Longrightarrow> \<exists>iconf. inputs s' = inputs s @ [iconf]"
  by (auto simp add: AddInputYAML_def split: sum.splits option.splits)

lemma AddOutputYAML_appends:
  "AddOutputYAML x conf s = (None, s') \<Longrightarrow> \<exists>oconf. outputs s' = outputs s @ [oconf]"
  by (auto simp add: AddOutputYAML_def split: sum.splits option.splits)

text \<open>
  C7. A builder that holds exactly one input config yields that config, unmodified, as
  the input of its snapshot: no broker is put around it.
\<close>

theorem buildConfig_single_input:
  "inputs s = [a] \<Longrightarrow> Input (Config (buildConfig x s)) = a"
  by (simp add: buildConfig_def Let_def)

theorem buildConfig_single_input_witness:
  "inputs (snd (AddInputYAML example_ext ''generate'' (NewStreamBuilder example_ext :: unit StreamBuilder)))
     = [Component ''generate'' ''generate'' ANil]
   \<and> Input (Config (buildConfig example_ext
        (snd (AddInputYAML example_ext ''generate'' (NewStreamBuilder example_ext :: unit StreamBuilder)))))
     = Component ''generate'' ''generate'' ANil"
proof -
  have h: "inputs (snd (AddInputYAML example_ext ''generate'' (NewStreamBuilder example_ext :: unit StreamBuilder)))
     = [Component ''generate'' ''generate'' ANil]"
    by (simp add: example_AddInputYAML NewStreamBuilder_fields)
  from buildConfig_single_input [OF h, of example_ext] h show ?thesis by simp
qed

text \<open>
  C4. A builder that holds more than one input config yields a broker as the input of
  its snapshot: a config of type \<^verbatim>\<open>broker\<close> whose plugin is a map with the one key
  \<^verbatim>\<open>inputs\<close>, bound to the list of the builder's input configs, in the builder's order,
  each exactly once.
\<close>

theorem buildConfig_many_inputs:
  "1 < length (inputs s) \<Longrightarrow>
     Input (Config (buildConfig x s)) =
       Component [] ''broker'' (AMap [''inputs'' \<mapsto> ASlice (map AInputConfig (inputs s))])"
  by (simp add: buildConfig_def Let_def set_Plugin_def set_Type_def zero_builderConfig_def
        zero_stream_Config_def zero_component_def)

theorem buildConfig_many_inputs_witness:
  "1 < length (inputs (snd (AddInputYAML example_ext ''c'' (snd (AddInputYAML example_ext ''b''
       (snd (AddInputYAML example_ext ''a'' (NewStreamBuilder example_ext :: unit StreamBuilder))))))))
   \<and> Input (Config (buildConfig example_ext
       (snd (AddInputYAML example_ext ''c'' (snd (AddInputYAML example_ext ''b''
         (snd (AddInputYAML example_ext ''a'' (NewStreamBuilder example_ext :: unit StreamBuilder))))))))) =
     Component [] ''broker'' (AMap [''inputs'' \<mapsto> ASlice
       [AInputConfig (Component ''a'' ''a'' ANil), AInputConfig (Component ''b'' ''b'' ANil),
        AInputConfig (Component ''c'' ''c'' ANil)]])"
proof -
  let ?st = "snd (AddInputYAML example_ext ''c'' (snd (AddInputYAML example_ext ''b''
       (snd (AddInputYAML example_ext ''a'' (NewStreamBuilder example_ext :: unit StreamBuilder))))))"
  have i: "inputs ?st = [Component ''a'' ''a'' ANil, Component ''b'' ''b'' ANil, Component ''c'' ''c'' ANil]"
    by (simp add: example_AddInputYAML NewStreamBuilder_fields)
  then have h: "1 < length (inputs ?st)" by simp
  from buildConfig_many_inputs [OF h, of example_ext] h i show ?thesis by simp
qed

lemma two_outputs:
  "outputs (snd (AddOutputYAML example_ext ''b'' (snd (AddOutputYAML example_ext ''a''
      (NewStreamBuilder example_ext :: unit StreamBuilder))))) =
     [Component ''a'' ''a'' ANil, Component ''b'' ''b'' ANil]"
  "outputBrokerPattern (snd (AddOutputYAML example_ext ''b'' (snd (AddOutputYAML example_ext ''a''
      (NewStreamBuilder example_ext :: unit StreamBuilder))))) = []"
  by (simp_all add: example_AddOutputYAML NewStreamBuilder_fields)

text \<open>
  C1, as the spec states it, asks for a pattern symbol on every output broker, \<^verbatim>\<open>fan_out\<close>
  when the caller set none. On a new builder with two outputs and no call of the pattern
  setter, the plugin map of the snapshot's output has no entry \<^verbatim>\<open>pattern\<close> at all.
\<close>

theorem default_pattern_counterexample:
  "1 < length (outputs (snd (AddOutputYAML example_ext ''b'' (snd (AddOutputYAML example_ext ''a''
      (NewStreamBuilder example_ext :: unit StreamBuilder))))))
   \<and> output_pattern (buildConfig example_ext
      (snd (AddOutputYAML example_ext ''b'' (snd (AddOutputYAML example_ext ''a''
         (NewStreamBuilder example_ext :: unit StreamBuilder)))))) = None
   \<and> output_pattern (buildConfig example_ext
      (snd (AddOutputYAML example_ext ''b'' (snd (AddOutputYAML example_ext ''a''
         (NewStreamBuilder example_ext :: unit StreamBuilder)))))) \<noteq> Some (AString ''fan_out'')"
  by (simp add: buildConfig_def Let_def set_Plugin_def set_Type_def zero_builderConfig_def
        zero_stream_Config_def zero_component_def output_pattern_def two_outputs)

text \<open>
  C1, amended. A builder that holds more than one output config yields a broker as the
  output of its snapshot: a config of type \<^verbatim>\<open>broker\<close> whose plugin map binds \<^verbatim>\<open>outputs\<close> to
  the builder's output configs in order. The map has the entry \<^verbatim>\<open>pattern\<close> exactly when the
  builder's pattern is not the empty string, and the entry is then that pattern; after
  the pattern setter was called with the symbol \<open>p\<close>, the builder's pattern is \<open>p\<close>. With
  no pattern set, no entry is attached: the default is left to the broker.
\<close>

theorem buildConfig_many_outputs:
  "1 < length (outputs s) \<Longrightarrow>
     Output (Config (buildConfig x s)) =
       Component [] ''broker''
         (AMap (if outputBrokerPattern s = []
                then [''outputs'' \<mapsto> ASlice (map AOutputConfig (outputs s))]
                else [''outputs'' \<mapsto> ASlice (map AOutputConfig (outputs s)),
                      ''pattern'' \<mapsto> AString (outputBrokerPattern s)]))
     \<and> output_pattern (buildConfig x s) =
         (if outputBrokerPattern s = [] then None else Some (AString (outputBrokerPattern s)))
     \<and> output_pattern (buildConfig x (SetOutputBrokerPattern p s)) =
         (if p = [] then None else Some (AString p))"
  by (simp add: buildConfig_def Let_def set_Plugin_def set_Type_def zero_builderConfig_def
        zero_stream_Config_def zero_component_def output_pattern_def SetOutputBrokerPattern_def)

theorem buildConfig_many_outputs_witness:
  "1 < length (outputs (snd (AddOutputYAML example_ext ''b'' (snd (AddOutputYAML example_ext ''a''
      (NewStreamBuilder example_ext :: unit StreamBuilder))))))
   \<and> output_pattern (buildConfig example_ext
        (snd (AddOutputYAML example_ext ''b'' (snd (AddOutputYAML example_ext ''a''
           (NewStreamBuilder example_ext :: unit StreamBuilder)))))) = None
   \<and> output_pattern (buildConfig example_ext (SetOutputBrokerPattern ''round_robin''
        (snd (AddOutputYAML example_ext ''b'' (snd (AddOutputYAML example_ext ''a''
           (NewStreamBuilder example_ext :: unit StreamBuilder))))))) = Some (AString ''round_robin'')"
proof -
  let ?st = "snd (AddOutputYAML example_ext ''b'' (snd (AddOutputYAML example_ext ''a''
      (NewStreamBuilder example_ext :: unit StreamBuilder))))"
  have h: "1 < length (outputs ?st)" by (simp add: two_outputs)
  from buildConfig_many_outputs [OF h, of example_ext "''round_robin''"] h two_outputs(2)
  show ?thesis by simp
qed

section \<open>Registration of producers and consumers\<close>

lemma producer_registered_once:
  "producerChan s \<noteq> None \<Longrightarrow>
     AddProducerFunc x u ch s = (Inl ErrMultipleProducers, s)
     \<and> AddBatchProducerFunc x u ch s = (Inl ErrMultipleProducers, s)"
  by (simp add: AddProducerFunc_def AddBatchProducerFunc_def)

lemma AddProducerFunc_stores:
  "AddProducerFunc x u ch s = (Inr h, s') \<Longrightarrow>
     producerChan s' = Some ch \<and> h = AddProducerFunc_closure ch"
  by (auto simp add: AddProducerFunc_def Let_def split: if_splits sum.splits)

lemma AddBatchProducerFunc_stores:
  "AddBatchProducerFunc x u ch s = (Inr h, s') \<Longrightarrow>
     producerChan s' = Some ch \<and> h = AddBatchProducerFunc_closure ch"
  by (auto simp add: AddBatchProducerFunc_def Let_def split: if_splits sum.splits)

lemma consumer_registered_once:
  "consumerFunc s \<noteq> None \<Longrightarrow>
     AddConsumerFunc x u fn s = (Some ErrMultipleConsumers, s)
     \<and> AddBatchConsumerFunc x u bfn s = (Some ErrMultipleConsumers, s)"
  by (simp add: AddConsumerFunc_def AddBatchConsumerFunc_def)

lemma AddConsumerFunc_stores:
  "AddConsumerFunc x (Inr u) fn s = (None, s') \<Longrightarrow>
     consumerFunc s' = Some (AddConsumerFunc_closure fn) \<and> consumerID s' = u"
  by (auto simp add: AddConsumerFunc_def Let_def split: if_splits)

lemma AddBatchConsumerFunc_stores:
  "AddBatchConsumerFunc x u fn s = (None, s') \<Longrightarrow> consumerFunc s' = fn"
  by (auto simp add: AddBatchConsumerFunc_def Let_def split: if_splits sum.splits)

text \<open>The two guards of \<^verbatim>\<open>SetYAML\<close>: with the producer channel or the consumer function
  set, it returns the error of the first guard that applies and leaves the builder as it
  was. A producer registration, and a consumer registration that stores a handler, lead
  to such a builder.\<close>

lemma SetYAML_guarded:
  "producerChan s \<noteq> None \<or> consumerFunc s \<noteq> None \<Longrightarrow>
     SetYAML x conf s =
       (Some (if producerChan s \<noteq> None then ErrOverrideInputs else ErrOverrideOutputs), s)"
  by (auto simp add: SetYAML_def)

lemma SetYAML_after_producer:
  "AddProducerFunc x u ch s = (Inr h, s') \<Longrightarrow> SetYAML x conf s' = (Some ErrOverrideInputs, s')"
  using AddProducerFunc_stores [of x u ch s h s'] by (simp add: SetYAML_def)

lemma SetYAML_after_batch_producer:
  "AddBatchProducerFunc x u ch s = (Inr h, s') \<Longrightarrow> SetYAML x conf s' = (Some ErrOverrideInputs, s')"
  using AddBatchProducerFunc_stores [of x u ch s h s'] by (simp add: SetYAML_def)

lemma SetYAML_after_consumer:
  "AddConsumerFunc x (Inr u) fn s = (None, s') \<Longrightarrow>
     SetYAML x conf s' =
       (Some (if producerChan s' \<noteq> None then ErrOverrideInputs else ErrOverrideOutputs), s')"
  using AddConsumerFunc_stores [of x u fn s s'] by (simp add: SetYAML_def)

text \<open>
  C2 at its failing input. A consumer registration with a nil handler succeeds and adds
  the \<^verbatim>\<open>inproc\<close> output of the consumer, but leaves the stored handler nil (the defect of
  C3). Both guards of \<^verbatim>\<open>SetYAML\<close> then pass: the call returns no error and replaces the
  outputs of the builder, the consumer's \<^verbatim>\<open>inproc\<close> output included, by the output of the
  document.
\<close>

theorem SetYAML_after_nil_consumer:
  "fst (AddBatchConsumerFunc example_ext (Inr ''c-1'') None
          (NewStreamBuilder example_ext :: unit StreamBuilder)) = None
   \<and> outputs (snd (AddBatchConsumerFunc example_ext (Inr ''c-1'') None
          (NewStreamBuilder example_ext :: unit StreamBuilder)))
       = [Component [] ''inproc'' (AString ''c-1'')]
   \<and> fst (SetYAML example_ext ''input: {}''
          (snd (AddBatchConsumerFunc example_ext (Inr ''c-1'') None
             (NewStreamBuilder example_ext :: unit StreamBuilder)))) = None
   \<and> outputs (snd (SetYAML example_ext ''input: {}''
          (snd (AddBatchConsumerFunc example_ext (Inr ''c-1'') None
             (NewStreamBuilder example_ext :: unit StreamBuilder)))))
       = [Component [] ''stdout'' ANil]"
  by (simp add: example_AddBatchConsumerFunc NewStreamBuilder_fields example_SetYAML_outputs)

text \<open>
  C3 at its failing input. \<^verbatim>\<open>AddBatchConsumerFunc\<close> stores the handler it is given, and the
  guard of both consumer registrations tests the stored handler against nil. Called with
  a nil handler on a new builder, the registration succeeds and leaves the stored handler
  nil; a second registration then succeeds as well, and the builder holds two
  \<^verbatim>\<open>inproc\<close> outputs.
\<close>

theorem AddBatchConsumerFunc_nil_twice:
  "fst (AddBatchConsumerFunc example_ext (Inr ''c-1'') None
          (NewStreamBuilder example_ext :: unit StreamBuilder)) = None
   \<and> consumerFunc (snd (AddBatchConsumerFunc example_ext (Inr ''c-1'') None
          (NewStreamBuilder example_ext :: unit StreamBuilder))) = None
   \<and> fst (AddBatchConsumerFunc example_ext (Inr ''c-2'') None
          (snd (AddBatchConsumerFunc example_ext (Inr ''c-1'') None
             (NewStreamBuilder example_ext :: unit StreamBuilder)))) = None
   \<and> outputs (snd (AddBatchConsumerFunc example_ext (Inr ''c-2'') None
          (snd (AddBatchConsumerFunc example_ext (Inr ''c-1'') None
             (NewStreamBuilder example_ext :: unit StreamBuilder))))) =
       [Component [] ''inproc'' (AString ''c-1''), Component [] ''inproc'' (AString ''c-2'')]"
  by (simp add: example_AddBatchConsumerFunc NewStreamBuilder_fields)

section \<open>The per-message consumer\<close>

lemma recording_apply:
  "recording f c m (w, l) = (case f c m w of (r, w') \<Rightarrow> (r, (w', l @ [m])))"
  by (simp add: recording_def)

text \<open>Recording does not change what the closure returns nor the handler's world.\<close>

lemma closure_recording_erase:
  "AddConsumerFunc_closure (Some (recording f)) c mb (w, l0) = (r, (w', log)) \<Longrightarrow>
     AddConsumerFunc_closure (Some f) c mb w = (r, w')"
proof (induction mb arbitrary: w l0)
  case Nil
  then show ?case by simp
next
  case (Cons m mb)
  obtain r1 w1 where call: "f c m w = (r1, w1)" by (cases "f c m w")
  show ?case
  proof (cases "r1 = Returns None")
    case True
    with Cons.prems call
    have "AddConsumerFunc_closure (Some (recording f)) c mb (w1, l0 @ [m]) = (r, (w', log))"
      by (simp add: recording_apply)
    from Cons.IH [OF this] call True show ?thesis by simp
  next
    case False
    with Cons.prems call show ?thesis
      by (auto simp add: recording_apply split: go_call.splits option.splits)
  qed
qed

lemma closure_recording:
  "AddConsumerFunc_closure (Some (recording f)) c mb (w, l0) = (r, (w', log)) \<Longrightarrow>
     (r = Returns None \<and> log = l0 @ mb \<and> succeeds_on f c mb w w') \<or>
     (r \<noteq> Returns None \<and>
      (\<exists>pre m post w1. mb = pre @ m # post \<and> log = l0 @ pre @ [m] \<and>
         succeeds_on f c pre w w1 \<and> f c m w1 = (r, w')))"
proof (induction mb arbitrary: w l0)
  case Nil
  then show ?case by simp
next
  case (Cons m mb)
  obtain r1 w1 where call: "f c m w = (r1, w1)" by (cases "f c m w")
  show ?case
  proof (cases "r1 = Returns None")
    case True
    with Cons.prems call
    have rest: "AddConsumerFunc_closure (Some (recording f)) c mb (w1, l0 @ [m]) = (r, (w', log))"
      by (simp add: recording_apply)
    from Cons.IH [OF rest] show ?thesis
    proof
      assume "r = Returns None \<and> log = (l0 @ [m]) @ mb \<and> succeeds_on f c mb w1 w'"
      with call True show ?thesis by simp
    next
      assume "r \<noteq> Returns None \<and>
        (\<exists>pre m' post w2. mb = pre @ m' # post \<and> log = (l0 @ [m]) @ pre @ [m'] \<and>
           succeeds_on f c pre w1 w2 \<and> f c m' w2 = (r, w'))"
      then obtain pre m' post w2 where ne: "r \<noteq> Returns None"
        and mb: "mb = pre @ m' # post" and lg: "log = (l0 @ [m]) @ pre @ [m']"
        and ok: "succeeds_on f c pre w1 w2" and last: "f c m' w2 = (r, w')"
        by blast
      have "m # mb = (m # pre) @ m' # post" using mb by simp
      moreover have "log = l0 @ (m # pre) @ [m']" using lg by simp
      moreover have "succeeds_on f c (m # pre) w w2" using ok call True by simp
      ultimately show ?thesis using ne last by blast
    qed
  next
    case False
    with Cons.prems call have res: "r = r1" "w' = w1" "log = l0 @ [m]"
      by (auto simp add: recording_apply split: go_call.splits option.splits)
    have "m # mb = [] @ m # mb" by simp
    moreover have "log = l0 @ [] @ [m]" using res by simp
    moreover have "succeeds_on f c [] w w" by simp
    ultimately show ?thesis using False res call by blast
  qed
qed

lemma consumer_loop_single:
  "fst (consumer_loop cf [Transaction ps] W) =
     (case fst (cf Background (map NewInternalMessage ps) W) of
        Returns err \<Rightarrow> ([err], Returns ())
      | Panics \<Rightarrow> ([], Panics))"
  by (simp add: Let_def split: prod.splits go_call.splits)

lemma example_reject_batch:
  "AddConsumerFunc_closure (Some (recording (reject (Message (Part ''b''))))) Background
      [Message (Part ''a''), Message (Part ''b''), Message (Part ''c'')] (0, []) =
     (Returns (Some (ErrExternal ''rejected'')), (2, [Message (Part ''a''), Message (Part ''b'')]))"
  by (simp add: recording_apply reject_def)

lemma consumer_loop_append:
  "consumer_loop cf (ts1 @ ts2) W =
     (case consumer_loop cf ts1 W of
        ((a1, Returns u), W1) \<Rightarrow>
          (case consumer_loop cf ts2 W1 of ((a2, r), W2) \<Rightarrow> ((a1 @ a2, r), W2))
      | ((a1, Panics), W1) \<Rightarrow> ((a1, Panics), W1))"
proof (induction ts1 arbitrary: W)
  case Nil
  then show ?case by (simp split: prod.splits)
next
  case (Cons t ts1)
  show ?case
    by (simp add: Cons.IH Let_def split: prod.splits go_call.splits)
qed

lemma consumer_loop_length:
  "consumer_loop cf ts W = ((acks, Returns u), W') \<Longrightarrow> length acks = length ts"
proof (induction ts arbitrary: W acks)
  case Nil
  then show ?case by simp
next
  case (Cons t ts)
  then show ?case
    by (auto simp add: Let_def split: prod.splits go_call.splits)
qed

lemma runConsumerFunc_loop:
  "consumerFunc s = Some cf \<Longrightarrow> GetPipe (consumerID s) = Inr ts \<Longrightarrow>
     runConsumerFunc GetPipe s W = (None, consumer_loop cf ts W)"
  by (simp add: runConsumerFunc_def)

text \<open>In a run of the loop that ends by the channel being closed, every transaction is
  acknowledged, in order, with what the handler returned for its batch in the world the
  earlier transactions left.\<close>

lemma consumer_loop_nth:
  assumes run: "consumer_loop cf (pre @ tran # post) W0 = ((acks, Returns u), W)"
  shows "length acks = length pre + 1 + length post \<and>
     (\<exists>W1 W2. consumer_loop cf pre W0 = ((take (length pre) acks, Returns ()), W1) \<and>
        cf Background (map NewInternalMessage (Payload tran)) W1 = (Returns (acks ! length pre), W2))"
proof -
  have len: "length acks = length pre + 1 + length post"
    using consumer_loop_length [OF run] by simp
  obtain a1 r1 W1 where p: "consumer_loop cf pre W0 = ((a1, r1), W1)"
    by (metis prod.exhaust)
  have r1: "r1 = Returns ()"
    using run p by (cases r1) (auto simp add: consumer_loop_append)
  obtain a2 r2 W3 where q: "consumer_loop cf (tran # post) W1 = ((a2, r2), W3)"
    by (metis prod.exhaust)
  from run p r1 q have acks: "acks = a1 @ a2" and r2: "r2 = Returns u"
    by (auto simp add: consumer_loop_append)
  have l1: "length a1 = length pre"
    using consumer_loop_length [of cf pre W0 a1 "()" W1] p r1 by simp
  obtain o1 W2 where call: "cf Background (map NewInternalMessage (Payload tran)) W1 = (o1, W2)"
    by (metis prod.exhaust)
  from q r2 call obtain e a3 where o1: "o1 = Returns e" and a2: "a2 = e # a3"
    by (cases o1) (auto simp add: Let_def split: prod.splits)
  have "take (length pre) acks = a1" using acks l1 by simp
  moreover have "acks ! length pre = e" using acks l1 a2 by (simp add: nth_append)
  ultimately show ?thesis using len p r1 call o1 by auto
qed


text \<open>
  C6. Let a per-message handler \<open>f\<close> be registered with \<^verbatim>\<open>AddConsumerFunc\<close>, instrumented
  to record the messages it is invoked on. The batch handler the builder then holds, run
  on any batch, gives the result and the world that the closure over the plain \<open>f\<close>
  gives, and
  \<^item> either it returns success, \<open>f\<close> was invoked on every message of the batch, in order,
    and succeeded on each;
  \<^item> or its outcome is the outcome of \<open>f\<close> on one message \<open>m\<close> of the batch, which is
    not success (an error returned, or a panic); \<open>f\<close> succeeded on every message before
    \<open>m\<close>, and was invoked on these and on \<open>m\<close>, in order, and on no message after \<open>m\<close>.
  \<^verbatim>\<open>runConsumerFunc\<close> on that builder runs the consumer loop with this batch handler over
  the transactions of the consumer's pipe. When the loop ends by the pipe being closed,
  every transaction has its acknowledgement, in the order of the transactions, and the
  acknowledgement of a transaction is what the batch handler returned for the batch of
  its payload, called in the world the earlier transactions left.
\<close>

theorem per_message_consumer:
  assumes reg: "AddConsumerFunc x (Inr u) (Some (recording f)) s = (None, s')"
  shows "\<exists>cf. consumerFunc s' = Some cf \<and>
     (\<forall>c mb w l0 r w' log. cf c mb (w, l0) = (r, (w', log)) \<longrightarrow>
        AddConsumerFunc_closure (Some f) c mb w = (r, w') \<and>
        ((r = Returns None \<and> log = l0 @ mb \<and> succeeds_on f c mb w w') \<or>
         (r \<noteq> Returns None \<and>
          (\<exists>pre m post w1. mb = pre @ m # post \<and> log = l0 @ pre @ [m] \<and>
             succeeds_on f c pre w w1 \<and> f c m w1 = (r, w'))))) \<and>
     (\<forall>GetPipe ts W. GetPipe u = Inr ts \<longrightarrow>
        runConsumerFunc GetPipe s' W = (None, consumer_loop cf ts W)) \<and>
     (\<forall>GetPipe pre tran post W0 err acks W.
        GetPipe u = Inr (pre @ tran # post) \<and>
        runConsumerFunc GetPipe s' W0 = (err, (acks, Returns ()), W) \<longrightarrow>
        err = None \<and> length acks = length pre + 1 + length post \<and>
        (\<exists>W1 W2. consumer_loop cf pre W0 = ((take (length pre) acks, Returns ()), W1) \<and>
           cf Background (map NewInternalMessage (Payload tran)) W1
             = (Returns (acks ! length pre), W2))) \<and>
     (\<forall>ps W. fst (consumer_loop cf [Transaction ps] W) =
        (case fst (cf Background (map NewInternalMessage ps) W) of
           Returns err \<Rightarrow> ([err], Returns ())
         | Panics \<Rightarrow> ([], Panics)))"
proof -
  let ?cf = "AddConsumerFunc_closure (Some (recording f))"
  have stored: "consumerFunc s' = Some ?cf" and cid: "consumerID s' = u"
    using AddConsumerFunc_stores [OF reg] by simp_all
  have calls: "\<forall>c mb w l0 r w' log. ?cf c mb (w, l0) = (r, (w', log)) \<longrightarrow>
        AddConsumerFunc_closure (Some f) c mb w = (r, w') \<and>
        ((r = Returns None \<and> log = l0 @ mb \<and> succeeds_on f c mb w w') \<or>
         (r \<noteq> Returns None \<and>
          (\<exists>pre m post w1. mb = pre @ m # post \<and> log = l0 @ pre @ [m] \<and>
             succeeds_on f c pre w w1 \<and> f c m w1 = (r, w'))))"
  proof (intro allI impI conjI)
    fix c mb w l0 r w' log
    assume run: "?cf c mb (w, l0) = (r, (w', log))"
    show "AddConsumerFunc_closure (Some f) c mb w = (r, w')"
      using run by (rule closure_recording_erase)
    show "(r = Returns None \<and> log = l0 @ mb \<and> succeeds_on f c mb w w') \<or>
         (r \<noteq> Returns None \<and>
          (\<exists>pre m post w1. mb = pre @ m # post \<and> log = l0 @ pre @ [m] \<and>
             succeeds_on f c pre w w1 \<and> f c m w1 = (r, w')))"
      using run by (rule closure_recording)
  qed
  have link: "\<forall>GetPipe ts W. GetPipe u = Inr ts \<longrightarrow>
        runConsumerFunc GetPipe s' W = (None, consumer_loop ?cf ts W)"
    using runConsumerFunc_loop [OF stored] cid by simp
  have acks: "\<forall>GetPipe pre tran post W0 err acks W.
        GetPipe u = Inr (pre @ tran # post) \<and>
        runConsumerFunc GetPipe s' W0 = (err, (acks, Returns ()), W) \<longrightarrow>
        err = None \<and> length acks = length pre + 1 + length post \<and>
        (\<exists>W1 W2. consumer_loop ?cf pre W0 = ((take (length pre) acks, Returns ()), W1) \<and>
           ?cf Background (map NewInternalMessage (Payload tran)) W1
             = (Returns (acks ! length pre), W2))"
  proof (intro allI impI)
    fix GetPipe pre tran post W0 err acks W
    assume h: "GetPipe u = Inr (pre @ tran # post) \<and>
        runConsumerFunc GetPipe s' W0 = (err, (acks, Returns ()), W)"
    then have g: "GetPipe u = Inr (pre @ tran # post)"
      and r: "runConsumerFunc GetPipe s' W0 = (err, (acks, Returns ()), W)" by simp_all
    from link [rule_format, of GetPipe "pre @ tran # post" W0] g r
    have "(err, (acks, Returns ()), W) = (None, consumer_loop ?cf (pre @ tran # post) W0)"
      by simp
    then have e: "err = None"
      and run: "consumer_loop ?cf (pre @ tran # post) W0 = ((acks, Returns ()), W)"
      by simp_all
    from consumer_loop_nth [OF run] e
    show "err = None \<and> length acks = length pre + 1 + length post \<and>
        (\<exists>W1 W2. consumer_loop ?cf pre W0 = ((take (length pre) acks, Returns ()), W1) \<and>
           ?cf Background (map NewInternalMessage (Payload tran)) W1
             = (Returns (acks ! length pre), W2))"
      by blast
  qed
  have single: "\<forall>ps W. fst (consumer_loop ?cf [Transaction ps] W) =
        (case fst (?cf Background (map NewInternalMessage ps) W) of
           Returns err \<Rightarrow> ([err], Returns ())
         | Panics \<Rightarrow> ([], Panics))"
    by (intro allI consumer_loop_single)
  show ?thesis
    by (rule exI [of _ ?cf]) (intro conjI stored calls link acks single)
qed

theorem per_message_consumer_witness:
  "AddConsumerFunc example_ext (Inr ''c-1'') (Some (recording (reject (Message (Part ''b'')))))
      (NewStreamBuilder example_ext) =
     (None, snd (AddConsumerFunc example_ext (Inr ''c-1'')
        (Some (recording (reject (Message (Part ''b''))))) (NewStreamBuilder example_ext)))
   \<and> (\<exists>cf. consumerFunc (snd (AddConsumerFunc example_ext (Inr ''c-1'')
          (Some (recording (reject (Message (Part ''b''))))) (NewStreamBuilder example_ext))) = Some cf
        \<and> cf Background [Message (Part ''a''), Message (Part ''b''), Message (Part ''c'')] (0, []) =
            (Returns (Some (ErrExternal ''rejected'')),
             (2, [Message (Part ''a''), Message (Part ''b'')])))
   \<and> runConsumerFunc
        (\<lambda>id. if id = ''c-1''
               then Inr [Transaction [Part ''a'', Part ''b'', Part ''c''], Transaction [Part ''d'']]
               else Inl (ErrExternal ''no pipe''))
        (snd (AddConsumerFunc example_ext (Inr ''c-1'')
          (Some (recording (reject (Message (Part ''b''))))) (NewStreamBuilder example_ext)))
        (0, []) =
      (None, ([Some (ErrExternal ''rejected''), None], Returns ()),
       (3, [Message (Part ''a''), Message (Part ''b''), Message (Part ''d'')]))"
proof -
  let ?f = "reject (Message (Part ''b''))"
  let ?init = "NewStreamBuilder example_ext :: (nat \<times> message list) StreamBuilder"
  let ?st = "snd (AddConsumerFunc example_ext (Inr ''c-1'') (Some (recording ?f)) ?init)"
  let ?ts = "[Transaction [Part ''a'', Part ''b'', Part ''c''], Transaction [Part ''d'']]"
  let ?pipe = "\<lambda>id. if id = ''c-1'' then Inr ?ts else Inl (ErrExternal ''no pipe'')"
  have h: "AddConsumerFunc example_ext (Inr ''c-1'') (Some (recording ?f)) ?init = (None, ?st)"
    by (simp add: example_AddConsumerFunc NewStreamBuilder_fields)
  obtain cf
    where stored: "consumerFunc ?st = Some cf"
      and link: "\<forall>GetPipe ts W. GetPipe ''c-1'' = Inr ts \<longrightarrow>
        runConsumerFunc GetPipe ?st W = (None, consumer_loop cf ts W)"
    using per_message_consumer [OF h] by (elim exE conjE) (rule that, assumption+)
  have "consumerFunc ?st = Some (AddConsumerFunc_closure (Some (recording ?f)))"
    by (simp add: example_AddConsumerFunc NewStreamBuilder_fields)
  with stored have cf: "cf = AddConsumerFunc_closure (Some (recording ?f))" by simp
  have call: "cf Background [Message (Part ''a''), Message (Part ''b''), Message (Part ''c'')] (0, []) =
      (Returns (Some (ErrExternal ''rejected'')), (2, [Message (Part ''a''), Message (Part ''b'')]))"
    unfolding cf by (rule example_reject_batch)
  have loop: "consumer_loop cf ?ts (0, []) =
      (([Some (ErrExternal ''rejected''), None], Returns ()),
       (3, [Message (Part ''a''), Message (Part ''b''), Message (Part ''d'')]))"
    unfolding cf
    by (simp add: NewInternalMessage_def recording_apply reject_def)
  have p: "?pipe ''c-1'' = Inr ?ts" by simp
  from link [rule_format, of ?pipe ?ts "(0, [])"] p loop
  have run: "runConsumerFunc ?pipe ?st (0, []) =
      (None, ([Some (ErrExternal ''rejected''), None], Returns ()),
       (3, [Message (Part ''a''), Message (Part ''b''), Message (Part ''d'')]))"
    by simp
  have ex: "\<exists>cf. consumerFunc ?st = Some cf
        \<and> cf Background [Message (Part ''a''), Message (Part ''b''), Message (Part ''c'')] (0, []) =
            (Returns (Some (ErrExternal ''rejected'')),
             (2, [Message (Part ''a''), Message (Part ''b'')]))"
    using stored call by (intro exI [of _ cf] conjI)
  show ?thesis by (rule conjI [OF h conjI [OF ex run]])
qed

section \<open>A producer call on a cancelled context\<close>

lemma AddProducerFunc_closure_cancelled:
  "done_at_send sc \<Longrightarrow> done_at_ack sc \<Longrightarrow> cancelled_call sc (AddProducerFunc_closure tChan sc m)"
  by (cases "ack_ready sc"; cases "pick_send sc"; cases "pick_ack sc"; cases "receiver_ready sc")
     (simp_all add: AddProducerFunc_closure_def cancelled_call_def Let_def go_select_def ready_def)

lemma AddBatchProducerFunc_closure_cancelled:
  "done_at_send sc \<Longrightarrow> done_at_ack sc \<Longrightarrow> cancelled_call sc (AddBatchProducerFunc_closure tChan sc b)"
  by (cases "ack_ready sc"; cases "pick_send sc"; cases "pick_ack sc"; cases "receiver_ready sc")
     (simp_all add: AddBatchProducerFunc_closure_def cancelled_call_def Let_def go_select_def ready_def)

text \<open>
  C9, as the spec states it, has every call on a context that was cancelled before the
  call return the cancellation error, the pipeline never seeing the transaction resolved.
  On the closure of a registered producer, with a receiver waiting on the channel and
  the runtime choosing the send, the transaction is handed to the pipeline although the
  call returns the cancellation error; and when the pipeline has the result ready and
  the runtime chooses its receive, the call returns the pipeline's result, here nil
  (delivered), not the cancellation error.
\<close>

theorem cancelled_call_counterexample:
  "fst (AddProducerFunc example_ext (Inr ''p-1'') 7 (NewStreamBuilder example_ext :: unit StreamBuilder))
     = Inr (AddProducerFunc_closure 7)
   \<and> done_at_send cancelled_delivered \<and> done_at_ack cancelled_delivered
   \<and> returned (AddProducerFunc_closure 7 cancelled_delivered (Message (Part ''a''))) = Some None
   \<and> returned (AddProducerFunc_closure 7 cancelled_delivered (Message (Part ''a'')))
       \<noteq> Some (Some (ctx_Err cancelled_delivered))
   \<and> sent (AddProducerFunc_closure 7 cancelled_delivered (Message (Part ''a'')))
       = Some (7, Transaction [Part ''a''])
   \<and> acked (AddProducerFunc_closure 7 cancelled_delivered (Message (Part ''a'')))
   \<and> done_at_send cancelled_handed_over \<and> done_at_ack cancelled_handed_over
   \<and> returned (AddProducerFunc_closure 7 cancelled_handed_over (Message (Part ''a'')))
       = Some (Some (ctx_Err cancelled_handed_over))
   \<and> sent (AddProducerFunc_closure 7 cancelled_handed_over (Message (Part ''a'')))
       = Some (7, Transaction [Part ''a''])"
  by (simp add: example_AddProducerFunc NewStreamBuilder_fields AddProducerFunc_closure_def
        cancelled_delivered_def cancelled_handed_over_def go_select_def ready_def Let_def)

text \<open>
  C9, amended. Let a producer handler, registered by either producer registration, be
  called on a context that was cancelled before the call. Then
  \<^item> the call returns: it does not block;
  \<^item> the transaction is handed to the pipeline exactly when a receiver is waiting on the
    producer channel and the runtime chooses the send over the cancellation;
  \<^item> so with no receiver waiting, the call returns the cancellation error and the pipeline
    never gets the transaction;
  \<^item> the call returns the cancellation error whenever it has not received the
    transaction's result; it receives the result, and returns it, only when the
    transaction was handed over, the pipeline has the result ready and the runtime
    chooses that receive over the cancellation.
\<close>

theorem cancelled_call_returns:
  "(AddProducerFunc x uu tChan s = (Inr h, s') \<and> done_at_send sc \<and> done_at_ack sc
      \<longrightarrow> cancelled_call sc (h sc m))
   \<and> (AddBatchProducerFunc x uu tChan s = (Inr hb, s') \<and> done_at_send sc \<and> done_at_ack sc
      \<longrightarrow> cancelled_call sc (hb sc b))"
  using AddProducerFunc_stores [of x uu tChan s h s'] AddBatchProducerFunc_stores [of x uu tChan s hb s']
    AddProducerFunc_closure_cancelled [of sc tChan m] AddBatchProducerFunc_closure_cancelled [of sc tChan b]
  by blast

theorem cancelled_call_returns_witness:
  "AddProducerFunc example_ext (Inr ''p-1'') 7 (NewStreamBuilder example_ext :: unit StreamBuilder)
     = (Inr (AddProducerFunc_closure 7),
        snd (AddProducerFunc example_ext (Inr ''p-1'') 7 (NewStreamBuilder example_ext :: unit StreamBuilder)))
   \<and> done_at_send cancelled_idle \<and> done_at_ack cancelled_idle
   \<and> cancelled_call cancelled_idle (AddProducerFunc_closure 7 cancelled_idle (Message (Part ''a'')))
   \<and> returned (AddProducerFunc_closure 7 cancelled_idle (Message (Part ''a'')))
       = Some (Some (ErrExternal ''context canceled''))
   \<and> sent (AddProducerFunc_closure 7 cancelled_idle (Message (Part ''a''))) = None"
proof -
  let ?init = "NewStreamBuilder example_ext :: unit StreamBuilder"
  have reg: "AddProducerFunc example_ext (Inr ''p-1'') 7 ?init
     = (Inr (AddProducerFunc_closure 7), snd (AddProducerFunc example_ext (Inr ''p-1'') 7 ?init))"
    by (simp add: example_AddProducerFunc NewStreamBuilder_fields)
  have d: "done_at_send cancelled_idle" "done_at_ack cancelled_idle"
    by (simp_all add: cancelled_idle_def)
  have idle: "\<not> receiver_ready cancelled_idle" "ctx_Err cancelled_idle = ErrExternal ''context canceled''"
    by (simp_all add: cancelled_idle_def)
  from cancelled_call_returns [of example_ext "Inr ''p-1''" 7 ?init "AddProducerFunc_closure 7"
      "snd (AddProducerFunc example_ext (Inr ''p-1'') 7 ?init)" cancelled_idle "Message (Part ''a'')"]
    reg d
  have c: "cancelled_call cancelled_idle (AddProducerFunc_closure 7 cancelled_idle (Message (Part ''a'')))"
    by blast
  with idle have "returned (AddProducerFunc_closure 7 cancelled_idle (Message (Part ''a'')))
       = Some (Some (ErrExternal ''context canceled''))
     \<and> sent (AddProducerFunc_closure 7 cancelled_idle (Message (Part ''a''))) = None"
    by (simp add: cancelled_call_def)
  with reg d c show ?thesis by blast
qed

section \<open>Resource labels\<close>

lemma find_label:
  "l \<in> Label ` set rs \<Longrightarrow> \<exists>r. find (\<lambda>r. Label r = l) rs = Some r \<and> Label r = l"
  by (induction rs) auto

lemma find_label_None:
  "l \<notin> Label ` set rs \<Longrightarrow> find (\<lambda>r. Label r = l) rs = None"
  by (induction rs) auto

lemma AddCacheYAML_result:
  "AddCacheYAML x conf s = (r, s') \<Longrightarrow>
     (r \<noteq> None \<and> s' = s) \<or>
     (r = None \<and> (\<exists>cconf. Label cconf \<noteq> [] \<and> Label cconf \<notin> Label ` set (ResourceCaches (resources s))
        \<and> s' = s\<lparr>resources := (resources s)\<lparr>ResourceCaches := ResourceCaches (resources s) @ [cconf]\<rparr>\<rparr>))"
  unfolding AddCacheYAML_def
  apply (auto split: sum.splits option.splits if_splits simp: find_None_iff)
  subgoal for n c by (rule exI [of _ c]) auto
  done

lemma AddRateLimitYAML_result:
  "AddRateLimitYAML x conf s = (r, s') \<Longrightarrow>
     (r \<noteq> None \<and> s' = s) \<or>
     (r = None \<and> (\<exists>rconf. Label rconf \<noteq> [] \<and> Label rconf \<notin> Label ` set (ResourceRateLimits (resources s))
        \<and> s' = s\<lparr>resources := (resources s)\<lparr>ResourceRateLimits := ResourceRateLimits (resources s) @ [rconf]\<rparr>\<rparr>))"
  unfolding AddRateLimitYAML_def
  apply (auto split: sum.splits option.splits if_splits simp: find_None_iff)
  subgoal for n c by (rule exI [of _ c]) auto
  done

lemma labels_ok_snoc:
  "labels_ok rs \<Longrightarrow> Label c \<noteq> [] \<Longrightarrow> Label c \<notin> Label ` set rs \<Longrightarrow> labels_ok (rs @ [c])"
  by (auto simp: labels_ok_def)

lemma AddCacheYAML_labels_ok:
  assumes "labels_ok (ResourceCaches (resources s))" "labels_ok (ResourceRateLimits (resources s))"
  shows "labels_ok (ResourceCaches (resources (snd (AddCacheYAML x conf s))))
       \<and> labels_ok (ResourceRateLimits (resources (snd (AddCacheYAML x conf s))))"
proof -
  obtain r s' where rs: "AddCacheYAML x conf s = (r, s')" by (cases "AddCacheYAML x conf s")
  from AddCacheYAML_result [OF rs] assms show ?thesis
    unfolding rs by (auto intro: labels_ok_snoc)
qed

lemma AddRateLimitYAML_labels_ok:
  assumes "labels_ok (ResourceCaches (resources s))" "labels_ok (ResourceRateLimits (resources s))"
  shows "labels_ok (ResourceCaches (resources (snd (AddRateLimitYAML x conf s))))
       \<and> labels_ok (ResourceRateLimits (resources (snd (AddRateLimitYAML x conf s))))"
proof -
  obtain r s' where rs: "AddRateLimitYAML x conf s = (r, s')" by (cases "AddRateLimitYAML x conf s")
  from AddRateLimitYAML_result [OF rs] assms show ?thesis
    unfolding rs by (auto intro: labels_ok_snoc)
qed

lemma run_calls_labels_ok:
  "labels_ok (ResourceCaches (resources s)) \<Longrightarrow> labels_ok (ResourceRateLimits (resources s)) \<Longrightarrow>
     labels_ok (ResourceCaches (resources (run_calls x cs s)))
   \<and> labels_ok (ResourceRateLimits (resources (run_calls x cs s)))"
proof (induction cs arbitrary: s)
  case Nil
  then show ?case by simp
next
  case (Cons c cs)
  show ?case
  proof (cases c)
    case (CallAddCache conf)
    with Cons.IH AddCacheYAML_labels_ok [OF Cons.prems] show ?thesis by simp
  next
    case (CallAddRateLimit conf)
    with Cons.IH AddRateLimitYAML_labels_ok [OF Cons.prems] show ?thesis by simp
  qed
qed

lemma AddCacheYAML_collision:
  assumes "getYAMLNode x s conf = Inr nconf" "lintYAMLComponent x s nconf TypeCache = None"
    "cache_FromAny x nconf = Inr cconf" "Label cconf \<noteq> []"
    "Label cconf \<in> Label ` set (ResourceCaches (resources s))"
  shows "AddCacheYAML x conf s = (Some (ErrLabelCollides (Label cconf)), s)"
  using assms find_label [OF assms(5)] unfolding AddCacheYAML_def by auto

lemma AddRateLimitYAML_collision:
  assumes "getYAMLNode x s conf = Inr nconf" "lintYAMLComponent x s nconf TypeRateLimit = None"
    "ratelimit_FromAny x nconf = Inr rconf" "Label rconf \<noteq> []"
    "Label rconf \<in> Label ` set (ResourceRateLimits (resources s))"
  shows "AddRateLimitYAML x conf s = (Some (ErrLabelCollides (Label rconf)), s)"
  using assms find_label [OF assms(5)] unfolding AddRateLimitYAML_def by auto

lemma example_AddCacheYAML:
  "AddCacheYAML example_ext b s =
     (if b = [] then (Some ErrCacheLabel, s)
      else if b \<in> Label ` set (ResourceCaches (resources s)) then (Some (ErrLabelCollides b), s)
      else (None, s\<lparr>resources := (resources s)
                 \<lparr>ResourceCaches := ResourceCaches (resources s) @ [Component b b ANil]\<rparr>\<rparr>))"
proof (cases "b \<in> Label ` set (ResourceCaches (resources s))")
  case True
  from find_label [OF True] obtain r
    where "find (\<lambda>r. Label r = b) (ResourceCaches (resources s)) = Some r" and "Label r = b"
    by blast
  then show ?thesis using True
    by (simp add: AddCacheYAML_def example_getYAMLNode example_lintYAMLComponent
          example_cache_FromAny)
next
  case False
  from find_label_None [OF False] False show ?thesis
    by (simp add: AddCacheYAML_def example_getYAMLNode example_lintYAMLComponent
          example_cache_FromAny)
qed

lemma example_AddRateLimitYAML:
  "AddRateLimitYAML example_ext b s =
     (if b = [] then (Some ErrRateLimitLabel, s)
      else if b \<in> Label ` set (ResourceRateLimits (resources s)) then (Some (ErrLabelCollides b), s)
      else (None, s\<lparr>resources := (resources s)
                 \<lparr>ResourceRateLimits := ResourceRateLimits (resources s) @ [Component b b ANil]\<rparr>\<rparr>))"
proof (cases "b \<in> Label ` set (ResourceRateLimits (resources s))")
  case True
  from find_label [OF True] obtain r
    where "find (\<lambda>r. Label r = b) (ResourceRateLimits (resources s)) = Some r" and "Label r = b"
    by blast
  then show ?thesis using True
    by (simp add: AddRateLimitYAML_def example_getYAMLNode example_lintYAMLComponent
          example_ratelimit_FromAny)
next
  case False
  from find_label_None [OF False] False show ?thesis
    by (simp add: AddRateLimitYAML_def example_getYAMLNode example_lintYAMLComponent
          example_ratelimit_FromAny)
qed

lemma example_resources:
  "resources (run_calls example_ext [CallAddCache ''a'', CallAddRateLimit ''a'', CallAddCache ''b'']
      (NewStreamBuilder example_ext :: unit StreamBuilder)) =
     \<lparr> ResourceCaches = [Component ''a'' ''a'' ANil, Component ''b'' ''b'' ANil],
       ResourceRateLimits = [Component ''a'' ''a'' ANil] \<rparr>"
  by (simp add: example_AddCacheYAML example_AddRateLimitYAML NewStreamBuilder_fields
        example_NewResourceConfig)

text \<open>
  C5. Take a builder whose two resource lists satisfy the label invariant (as the empty
  lists of a new builder do) and run any sequence of cache-add and rate-limit-add calls
  on it. In the builder \<open>s\<close> reached:
  \<^item> both lists still satisfy the invariant: no empty label, no label twice in a kind;
  \<^item> a cache-add (rate-limit-add) call whose document parses to a config with a label
    that a cache (rate limit) of \<open>s\<close> carries returns the collision error, and leaves
    the whole builder, so also that resource list, as it was;
  \<^item> a cache-add (rate-limit-add) call that succeeds appends one config to the list of
    its kind, with a non-empty label, and leaves the other list as it was.
\<close>

theorem resource_labels:
  assumes c0: "labels_ok (ResourceCaches (resources s0))"
    and r0: "labels_ok (ResourceRateLimits (resources s0))"
    and run: "s = run_calls x calls s0"
  shows "labels_ok (ResourceCaches (resources s)) \<and> labels_ok (ResourceRateLimits (resources s))
    \<and> (getYAMLNode x s conf = Inr nconf \<and> lintYAMLComponent x s nconf TypeCache = None
         \<and> cache_FromAny x nconf = Inr cconf
         \<and> Label cconf \<in> Label ` set (ResourceCaches (resources s))
        \<longrightarrow> AddCacheYAML x conf s = (Some (ErrLabelCollides (Label cconf)), s))
    \<and> (getYAMLNode x s conf = Inr nconf \<and> lintYAMLComponent x s nconf TypeRateLimit = None
         \<and> ratelimit_FromAny x nconf = Inr rconf
         \<and> Label rconf \<in> Label ` set (ResourceRateLimits (resources s))
        \<longrightarrow> AddRateLimitYAML x conf s = (Some (ErrLabelCollides (Label rconf)), s))
    \<and> (AddCacheYAML x conf s = (None, s')
        \<longrightarrow> (\<exists>c. Label c \<noteq> [] \<and> ResourceCaches (resources s') = ResourceCaches (resources s) @ [c]
                 \<and> ResourceRateLimits (resources s') = ResourceRateLimits (resources s)))
    \<and> (AddRateLimitYAML x conf s = (None, s')
        \<longrightarrow> (\<exists>c. Label c \<noteq> [] \<and> ResourceRateLimits (resources s') = ResourceRateLimits (resources s) @ [c]
                 \<and> ResourceCaches (resources s') = ResourceCaches (resources s)))"
proof -
  have inv: "labels_ok (ResourceCaches (resources s)) \<and> labels_ok (ResourceRateLimits (resources s))"
    unfolding run using c0 r0 by (rule run_calls_labels_ok)
  have nonempty_c: "l \<in> Label ` set (ResourceCaches (resources s)) \<Longrightarrow> l \<noteq> []" for l
    using inv by (force simp: labels_ok_def)
  have nonempty_r: "l \<in> Label ` set (ResourceRateLimits (resources s)) \<Longrightarrow> l \<noteq> []" for l
    using inv by (force simp: labels_ok_def)
  have cache: "getYAMLNode x s conf = Inr nconf \<and> lintYAMLComponent x s nconf TypeCache = None
         \<and> cache_FromAny x nconf = Inr cconf
         \<and> Label cconf \<in> Label ` set (ResourceCaches (resources s))
        \<longrightarrow> AddCacheYAML x conf s = (Some (ErrLabelCollides (Label cconf)), s)"
    using AddCacheYAML_collision nonempty_c by blast
  have rate: "getYAMLNode x s conf = Inr nconf \<and> lintYAMLComponent x s nconf TypeRateLimit = None
         \<and> ratelimit_FromAny x nconf = Inr rconf
         \<and> Label rconf \<in> Label ` set (ResourceRateLimits (resources s))
        \<longrightarrow> AddRateLimitYAML x conf s = (Some (ErrLabelCollides (Label rconf)), s)"
    using AddRateLimitYAML_collision nonempty_r by blast
  have addc: "AddCacheYAML x conf s = (None, s')
        \<longrightarrow> (\<exists>c. Label c \<noteq> [] \<and> ResourceCaches (resources s') = ResourceCaches (resources s) @ [c]
                 \<and> ResourceRateLimits (resources s') = ResourceRateLimits (resources s))"
  proof
    assume "AddCacheYAML x conf s = (None, s')"
    from AddCacheYAML_result [OF this] show "\<exists>c. Label c \<noteq> [] \<and>
        ResourceCaches (resources s') = ResourceCaches (resources s) @ [c]
        \<and> ResourceRateLimits (resources s') = ResourceRateLimits (resources s)"
      by auto
  qed
  have addr: "AddRateLimitYAML x conf s = (None, s')
        \<longrightarrow> (\<exists>c. Label c \<noteq> [] \<and> ResourceRateLimits (resources s') = ResourceRateLimits (resources s) @ [c]
                 \<and> ResourceCaches (resources s') = ResourceCaches (resources s))"
  proof
    assume "AddRateLimitYAML x conf s = (None, s')"
    from AddRateLimitYAML_result [OF this] show "\<exists>c. Label c \<noteq> [] \<and>
        ResourceRateLimits (resources s') = ResourceRateLimits (resources s) @ [c]
        \<and> ResourceCaches (resources s') = ResourceCaches (resources s)"
      by auto
  qed
  from inv cache rate addc addr show ?thesis by blast
qed

theorem resource_labels_witness:
  "labels_ok (ResourceCaches (resources (NewStreamBuilder example_ext :: unit StreamBuilder)))
   \<and> labels_ok (ResourceRateLimits (resources (NewStreamBuilder example_ext :: unit StreamBuilder)))
   \<and> labels_ok (ResourceCaches (resources (run_calls example_ext
        [CallAddCache ''a'', CallAddRateLimit ''a'', CallAddCache ''b'']
        (NewStreamBuilder example_ext :: unit StreamBuilder))))
   \<and> AddCacheYAML example_ext ''a'' (run_calls example_ext
        [CallAddCache ''a'', CallAddRateLimit ''a'', CallAddCache ''b'']
        (NewStreamBuilder example_ext :: unit StreamBuilder)) =
      (Some (ErrLabelCollides ''a''), run_calls example_ext
        [CallAddCache ''a'', CallAddRateLimit ''a'', CallAddCache ''b'']
        (NewStreamBuilder example_ext :: unit StreamBuilder))
   \<and> AddRateLimitYAML example_ext ''a'' (run_calls example_ext
        [CallAddCache ''a'', CallAddRateLimit ''a'', CallAddCache ''b'']
        (NewStreamBuilder example_ext :: unit StreamBuilder)) =
      (Some (ErrLabelCollides ''a''), run_calls example_ext
        [CallAddCache ''a'', CallAddRateLimit ''a'', CallAddCache ''b'']
        (NewStreamBuilder example_ext :: unit StreamBuilder))"
proof -
  let ?init = "NewStreamBuilder example_ext :: unit StreamBuilder"
  let ?st = "run_calls example_ext [CallAddCache ''a'', CallAddRateLimit ''a'', CallAddCache ''b''] ?init"
  have c0: "labels_ok (ResourceCaches (resources ?init))"
    by (simp add: labels_ok_def NewStreamBuilder_fields example_NewResourceConfig)
  have r0: "labels_ok (ResourceRateLimits (resources ?init))"
    by (simp add: labels_ok_def NewStreamBuilder_fields example_NewResourceConfig)
  have n: "getYAMLNode example_ext ?st ''a'' = Inr (Node 1 ''a'')"
    by (rule example_getYAMLNode)
  have l1: "lintYAMLComponent example_ext ?st (Node 1 ''a'') TypeCache = None"
    by (rule example_lintYAMLComponent)
  have l2: "lintYAMLComponent example_ext ?st (Node 1 ''a'') TypeRateLimit = None"
    by (rule example_lintYAMLComponent)
  have m1: "Label (Component ''a'' ''a'' ANil) \<in> Label ` set (ResourceCaches (resources ?st))"
    unfolding example_resources by simp
  have m2: "Label (Component ''a'' ''a'' ANil) \<in> Label ` set (ResourceRateLimits (resources ?st))"
    unfolding example_resources by simp
  have f1: "cache_FromAny example_ext (Node 1 ''a'') = Inr (Component ''a'' ''a'' ANil)"
    by (rule example_cache_FromAny)
  have f2: "ratelimit_FromAny example_ext (Node 1 ''a'') = Inr (Component ''a'' ''a'' ANil)"
    by (rule example_ratelimit_FromAny)
  have lab: "Label (Component ''a'' ''a'' ANil :: any component) = ''a''" by simp
  from resource_labels [OF c0 r0 refl, of example_ext
      "[CallAddCache ''a'', CallAddRateLimit ''a'', CallAddCache ''b'']"
      "''a''" "Node 1 ''a''" "Component ''a'' ''a'' ANil" "Component ''a'' ''a'' ANil"]
    n l1 l2 m1 m2 f1 f2
  have "labels_ok (ResourceCaches (resources ?st))
      \<and> AddCacheYAML example_ext ''a'' ?st = (Some (ErrLabelCollides ''a''), ?st)
      \<and> AddRateLimitYAML example_ext ''a'' ?st = (Some (ErrLabelCollides ''a''), ?st)"
    unfolding lab by blast
  with c0 r0 show ?thesis by blast
qed

section \<open>The tracer config conversion\<close>

text \<open>
  C10. For a value that is none of the three shapes \<^verbatim>\<open>FromAny\<close> accepts (a
  \<^verbatim>\<open>tracer.Config\<close>, a \<^verbatim>\<open>*yaml.Node\<close>, a \<^verbatim>\<open>map[string]any\<close>), \<^verbatim>\<open>FromAny\<close> returns the zero
  config together with the error that names the value's type; it does not succeed.
\<close>

theorem tracer_FromAny_unexpected:
  "\<not> accepted_shape v \<Longrightarrow>
     tracer_FromAny prov v = (TracerConfig [] ANil, Some (ErrUnexpectedValue (type_name v)))"
  by (cases v) (simp_all add: tracer_FromAny_def)

theorem tracer_FromAny_unexpected_witness:
  "\<not> accepted_shape (AString ''jaeger'')
   \<and> tracer_FromAny example_ext (AString ''jaeger'') =
       (TracerConfig [] ANil, Some (ErrUnexpectedValue ''string''))"
proof -
  have h: "\<not> accepted_shape (AString ''jaeger'')" by simp
  from tracer_FromAny_unexpected [OF h, of example_ext] h show ?thesis by simp
qed

end
